theory Spec2Isabelle
  imports Complex_Main "HOL-Library.Char_ord" "HOL-Library.List_Lexorder" "HOL-Library.Sublist"
begin

section \<open>JavaScript values used by the services\<close>

text \<open>
  Strings are lists of 8-bit code units. A thrown JavaScript exception is a value:
  \<open>Error m\<close> is \<^verbatim>\<open>new Error(m)\<close>, \<open>TypeError m\<close> is the exception the
  runtime raises when a method is called on \<^verbatim>\<open>undefined\<close> or on a value without that
  method. A service call returns its outcome together with the store it leaves behind.
\<close>

datatype error = Error string | TypeError string

fun message :: "error \<Rightarrow> string" where
  "message (Error m) = m"
| "message (TypeError m) = m"

text \<open>JavaScript truthiness of an optional string: \<^verbatim>\<open>undefined\<close> and \<^verbatim>\<open>""\<close> are falsy.\<close>

fun truthy :: "string option \<Rightarrow> bool" where
  "truthy None = False"
| "truthy (Some s) = (s \<noteq> [])"

text \<open>
  \<^verbatim>\<open>String.prototype.trim\<close>: the white space and line terminator code units below 256
  are TAB, LF, VT, FF, CR, SPACE and NBSP.
\<close>

definition is_ws :: "char \<Rightarrow> bool" where
  "is_ws c = (c \<in> set [CHR 0x09, CHR 0x0A, CHR 0x0B, CHR 0x0C, CHR 0x0D, CHR 0x20, CHR 0xA0])"

definition trim :: "string \<Rightarrow> string" where
  "trim s = rev (dropWhile is_ws (rev (dropWhile is_ws s)))"

text \<open>A string with no white space at either end, as \<open>trim\<close> leaves it.\<close>

definition no_outer_ws :: "string \<Rightarrow> bool" where
  "no_outer_ws t = (case t of [] \<Rightarrow> True | c # cs \<Rightarrow> \<not> is_ws c \<and> \<not> is_ws (last t))"

text \<open>\<^verbatim>\<open>String.prototype.startsWith\<close> and \<^verbatim>\<open>String.prototype.includes\<close>.\<close>

fun startsWith :: "string \<Rightarrow> string \<Rightarrow> bool" where
  "startsWith s [] = True"
| "startsWith [] (t # ts) = False"
| "startsWith (c # cs) (t # ts) = (c = t \<and> startsWith cs ts)"

fun includes_str :: "string \<Rightarrow> string \<Rightarrow> bool" where
  "includes_str [] t = (t = [])"
| "includes_str (c # cs) t = (startsWith (c # cs) t \<or> includes_str cs t)"

section \<open>Project types (project.types.ts)\<close>

text \<open>
  The enum \<^verbatim>\<open>ProjectStatus\<close> is a set of string values. A row read from the store
  carries its status as a string, which the service casts to the enum unchecked, so
  the status of a row is a \<open>string\<close> here.
\<close>

definition PENDING :: string where "PENDING = ''pending''"
definition IN_PROGRESS :: string where "IN_PROGRESS = ''in_progress''"
definition COMPLETED :: string where "COMPLETED = ''completed''"
definition CANCELLED :: string where "CANCELLED = ''cancelled''"

text \<open>\<^verbatim>\<open>Object.values(ProjectStatus)\<close>.\<close>

definition ProjectStatus_values :: "string list" where
  "ProjectStatus_values = [PENDING, IN_PROGRESS, COMPLETED, CANCELLED]"

record project =
  project_id :: string
  client_id :: string
  title :: string
  description :: string
  category :: string
  budget :: rat
  status :: string
  created_at :: int

record CreateProjectDTO =
  c_client_id :: string
  c_title :: string
  c_description :: string
  c_category :: string
  c_budget :: rat

record UpdateProjectDTO =
  u_title :: "string option"
  u_description :: "string option"
  u_category :: "string option"
  u_budget :: "rat option"
  u_status :: "string option"

record ProjectFilters =
  f_category :: "string option"
  f_budget_min :: "rat option"
  f_budget_max :: "rat option"
  f_status :: "string option"
  f_page :: "int option"
  f_limit :: "int option"

text \<open>
  \<^verbatim>\<open>PROJECT_STATUS_TRANSITIONS\<close> is an object literal with four own keys. Reading a
  property of it yields the array stored under an own key, a member inherited from
  \<^verbatim>\<open>Object.prototype\<close> (a function, or the prototype object for \<^verbatim>\<open>__proto__\<close>; none
  has an \<^verbatim>\<open>includes\<close> method), or \<^verbatim>\<open>undefined\<close>.
\<close>

datatype js_lookup = Array "string list" | NotArray | Undefined

type_synonym transitions = "(string \<times> string list) list"

definition PROJECT_STATUS_TRANSITIONS :: transitions where
  "PROJECT_STATUS_TRANSITIONS =
     [(PENDING, [IN_PROGRESS, CANCELLED]),
      (IN_PROGRESS, [COMPLETED, CANCELLED]),
      (COMPLETED, []),
      (CANCELLED, [])]"

definition Object_prototype_keys :: "string list" where
  "Object_prototype_keys =
     [''constructor'', ''__proto__'', ''hasOwnProperty'', ''isPrototypeOf'',
      ''propertyIsEnumerable'', ''toLocaleString'', ''toString'', ''valueOf'',
      ''__defineGetter__'', ''__defineSetter__'', ''__lookupGetter__'',
      ''__lookupSetter__'']"

definition get_property :: "transitions \<Rightarrow> string \<Rightarrow> js_lookup" where
  "get_property tbl k =
     (case map_of tbl k of
        Some xs \<Rightarrow> Array xs
      | None \<Rightarrow> if k \<in> set Object_prototype_keys then NotArray else Undefined)"

section \<open>The store behind the query interface\<close>

text \<open>
  The persistence layer is outside the repository. It is modelled as a relational
  store: a \<open>users\<close> table keyed by its primary key and a \<open>projects\<close> table as the list
  of its rows. A query is built step by step, as the services do, and then run.
  A store call yields either the store's error message or its data. How the store
  folds case when it compares letters is a matter of its locale, which the repository
  does not fix: it is the field \<open>fold_case\<close> of the store.
\<close>

record user =
  is_freelancer :: bool
  name :: string
  username :: string
  email :: string

record contract =
  contract_id :: string
  contract_type :: string
  k_project_id :: "string option"
  k_service_request_id :: "string option"
  freelancer_id :: string
  k_client_id :: string
  contract_on_chain_id :: string
  escrow_status :: string
  amount_locked :: rat
  k_created_at :: int

record store =
  users :: "string \<rightharpoonup> user"
  projects :: "project list"
  contracts :: "contract list"
  fold_case :: "char \<Rightarrow> char"

datatype cond =
    EqId string
  | EqStatus string
  | NeqStatus string
  | GteBudget rat
  | LteBudget rat
  | IlikeCategory string

record query =
  inner_users :: bool
  conds :: "cond list"
  rng :: "(int \<times> int) option"
  descending :: bool

text \<open>\<^verbatim>\<open>supabase.from("projects").select(...)\<close>; the flag says whether the selected
  columns embed \<^verbatim>\<open>users!inner\<close>.\<close>

definition from_projects :: "bool \<Rightarrow> query" where
  "from_projects j = \<lparr>inner_users = j, conds = [], rng = None, descending = False\<rparr>"

definition add_cond :: "cond \<Rightarrow> query \<Rightarrow> query" where
  "add_cond c q = q\<lparr>conds := conds q @ [c]\<rparr>"

definition range_q :: "int \<Rightarrow> int \<Rightarrow> query \<Rightarrow> query" where
  "range_q lo hi q = q\<lparr>rng := Some (lo, hi)\<rparr>"

definition order_created_at_desc :: "query \<Rightarrow> query" where
  "order_created_at_desc q = q\<lparr>descending := True\<rparr>"

text \<open>
  \<open>ILIKE\<close>: in the pattern \<open>%\<close> stands for any run of characters, \<open>_\<close> for any one
  character, a backslash takes the next character literally, and any other character
  matches a character that the case folding \<open>lc\<close> of the store takes to the same
  character. The query interface reads \<open>*\<close> in a pattern as \<open>%\<close>. A pattern that ends in
  a lone backslash, which the store refuses, matches nothing here; the patterns the
  service builds end in \<open>%\<close>.
\<close>

fun like_match :: "(char \<Rightarrow> char) \<Rightarrow> string \<Rightarrow> string \<Rightarrow> bool" where
  "like_match lc [] s = (s = [])"
| "like_match lc (p # ps) [] = (p = CHR ''%'' \<and> like_match lc ps [])"
| "like_match lc (p # ps) (c # cs) =
     (if p = CHR ''%'' then like_match lc ps (c # cs) \<or> like_match lc (p # ps) cs
      else if p = CHR ''_'' then like_match lc ps cs
      else if p = CHR 0x5C then
        (case ps of [] \<Rightarrow> False | q # qs \<Rightarrow> lc c = lc q \<and> like_match lc qs cs)
      else lc c = lc p \<and> like_match lc ps cs)"

definition ilike :: "(char \<Rightarrow> char) \<Rightarrow> string \<Rightarrow> string \<Rightarrow> bool" where
  "ilike lc pat s = like_match lc (map (\<lambda>c. if c = CHR ''*'' then CHR ''%'' else c) pat) s"

fun holds :: "(char \<Rightarrow> char) \<Rightarrow> cond \<Rightarrow> project \<Rightarrow> bool" where
  "holds lc (EqId i) p = (project_id p = i)"
| "holds lc (EqStatus st) p = (status p = st)"
| "holds lc (NeqStatus st) p = (status p \<noteq> st)"
| "holds lc (GteBudget b) p = (b \<le> budget p)"
| "holds lc (LteBudget b) p = (budget p \<le> b)"
| "holds lc (IlikeCategory pat) p = ilike lc pat (category p)"

text \<open>The rows a query selects, before ordering and range: the inner join keeps the
  projects whose owner is a row of \<open>users\<close>.\<close>

definition matching :: "store \<Rightarrow> query \<Rightarrow> project list" where
  "matching s q =
     filter (\<lambda>p. list_all (\<lambda>c. holds (fold_case s) c p) (conds q))
       (if inner_users q then filter (\<lambda>p. users s (client_id p) \<noteq> None) (projects s)
        else projects s)"

text \<open>Newest first; rows created at the same instant keep their table order.\<close>

definition ordered :: "query \<Rightarrow> project list \<Rightarrow> project list" where
  "ordered q rows = (if descending q then sort_key (\<lambda>p. - created_at p) rows else rows)"

text \<open>\<^verbatim>\<open>range(from, to)\<close> keeps the rows at positions \<open>from\<close> to \<open>to\<close>, both included.
  The store refuses a negative start, an end before the start and, the number of rows
  being counted, a start beyond the number of rows the conditions select.\<close>

definition in_range :: "query \<Rightarrow> project list \<Rightarrow> string + project list" where
  "in_range q rows =
     (case rng q of
        None \<Rightarrow> Inr rows
      | Some (lo, hi) \<Rightarrow>
          if lo < 0 \<or> hi < lo \<or> int (length rows) < lo
            then Inl ''Requested range not satisfiable''
          else Inr (take (nat (hi - lo + 1)) (drop (nat lo) rows)))"

text \<open>Running a select gives the rows and, as \<^verbatim>\<open>{ count: "exact" }\<close> asks, the number
  of rows the conditions select regardless of the range.\<close>

definition run_select :: "store \<Rightarrow> query \<Rightarrow> string + (project list \<times> nat)" where
  "run_select s q =
     (case in_range q (ordered q (matching s q)) of
        Inl e \<Rightarrow> Inl e
      | Inr rows \<Rightarrow> Inr (rows, length (matching s q)))"

text \<open>\<^verbatim>\<open>.single()\<close>: the result must be exactly one row.\<close>

definition single :: "string + (project list \<times> nat) \<Rightarrow> string + project" where
  "single r =
     (case r of
        Inl e \<Rightarrow> Inl e
      | Inr (rows, n) \<Rightarrow>
          (case rows of
             [p] \<Rightarrow> Inr p
           | _ \<Rightarrow> Inl ''JSON object requested, multiple (or no) rows returned''))"

text \<open>\<^verbatim>\<open>.update(changes).eq("id", i)\<close>: every row with that id is changed; the changed
  rows are returned with the new store.\<close>

definition run_update ::
  "store \<Rightarrow> string \<Rightarrow> (project \<Rightarrow> project) \<Rightarrow> string + ((project list \<times> nat) \<times> store)" where
  "run_update s i f =
     Inr ((map f (filter (\<lambda>p. project_id p = i) (projects s)),
           length (filter (\<lambda>p. project_id p = i) (projects s))),
          s\<lparr>projects := map (\<lambda>p. if project_id p = i then f p else p) (projects s)\<rparr>)"

text \<open>\<^verbatim>\<open>.insert(row)\<close>: the store appends the row and returns it.\<close>

definition run_insert :: "store \<Rightarrow> project \<Rightarrow> string + (project \<times> store)" where
  "run_insert s p = Inr (p, s\<lparr>projects := projects s @ [p]\<rparr>)"

text \<open>\<^verbatim>\<open>supabase.from("users").select(...).eq("id", i).single()\<close>.\<close>

definition user_single :: "store \<Rightarrow> string \<Rightarrow> string + user" where
  "user_single s i =
     (case users s i of
        None \<Rightarrow> Inl ''JSON object requested, multiple (or no) rows returned''
      | Some u \<Rightarrow> Inr u)"

section \<open>ProjectService (project.service.ts)\<close>

subsection \<open>updateProject\<close>

text \<open>
  The columns the patch sets, after the service has dropped the undefined keys and
  trimmed the truthy string fields; the store overwrites exactly the present columns.
\<close>

definition trim_field :: "string option \<Rightarrow> string option" where
  "trim_field x = (if truthy x then map_option trim x else x)"

definition prepare :: "UpdateProjectDTO \<Rightarrow> UpdateProjectDTO" where
  "prepare u = u\<lparr>u_title := trim_field (u_title u),
                  u_description := trim_field (u_description u),
                  u_category := trim_field (u_category u)\<rparr>"

definition set_columns :: "UpdateProjectDTO \<Rightarrow> project \<Rightarrow> project" where
  "set_columns u p =
     p\<lparr>title := (case u_title u of None \<Rightarrow> title p | Some x \<Rightarrow> x),
       description := (case u_description u of None \<Rightarrow> description p | Some x \<Rightarrow> x),
       category := (case u_category u of None \<Rightarrow> category p | Some x \<Rightarrow> x),
       budget := (case u_budget u of None \<Rightarrow> budget p | Some x \<Rightarrow> x),
       status := (case u_status u of None \<Rightarrow> status p | Some x \<Rightarrow> x)\<rparr>"

text \<open>\<^verbatim>\<open>allowedTransitions.includes(target)\<close> on whatever the lookup gave.\<close>

fun includes_of :: "js_lookup \<Rightarrow> string \<Rightarrow> error + bool" where
  "includes_of (Array xs) t = Inr (t \<in> set xs)"
| "includes_of NotArray t = Inl (TypeError ''allowedTransitions.includes is not a function'')"
| "includes_of Undefined t =
     Inl (TypeError ''Cannot read properties of undefined (reading 'includes')'')"

text \<open>The messages of the two exceptions a failed lookup ends in.\<close>

definition lookup_failure :: "string \<Rightarrow> bool" where
  "lookup_failure m =
     (m = ''allowedTransitions.includes is not a function''
      \<or> m = ''Cannot read properties of undefined (reading 'includes')'')"

definition InvalidTransition :: "string \<Rightarrow> string \<Rightarrow> error" where
  "InvalidTransition cur t = Error (''Invalid status transition from '' @ cur @ '' to '' @ t)"

definition Unauthorized_update :: error where
  "Unauthorized_update = Error ''Unauthorized: You can only update your own projects''"

text \<open>The ownership test of both mutations:
  \<^verbatim>\<open>clientId && existingProject.client_id !== clientId\<close>.\<close>

definition not_owner :: "string option \<Rightarrow> project \<Rightarrow> bool" where
  "not_owner clientId existingProject =
     (truthy clientId \<and> Some (client_id existingProject) \<noteq> clientId)"

text \<open>The status check of \<open>updateProject\<close>: the exception it ends in, if any.\<close>

definition check_transition :: "transitions \<Rightarrow> string \<Rightarrow> string option \<Rightarrow> error option" where
  "check_transition tbl cur st =
     (case st of
        None \<Rightarrow> None
      | Some t \<Rightarrow>
          if t \<noteq> [] \<and> t \<noteq> cur then
            (case includes_of (get_property tbl cur) t of
               Inl e \<Rightarrow> Some e
             | Inr allowed \<Rightarrow> if allowed then None else Some (InvalidTransition cur t))
          else None)"

text \<open>The service with the transition table as a parameter; \<open>updateProject\<close> below
  is the service of the source, which reads the global table.\<close>

definition updateProject_with ::
  "transitions \<Rightarrow> store \<Rightarrow> string \<Rightarrow> UpdateProjectDTO \<Rightarrow> string option
     \<Rightarrow> (error + project option) \<times> store" where
  "updateProject_with tbl s projectId updateData clientId =
     (case single (run_select s (add_cond (EqId projectId) (from_projects False))) of
        Inl fetchError \<Rightarrow> (Inr None, s)
      | Inr existingProject \<Rightarrow>
          if not_owner clientId existingProject
          then (Inl Unauthorized_update, s)
          else
            (case check_transition tbl (status existingProject) (u_status updateData) of
               Some e \<Rightarrow> (Inl e, s)
             | None \<Rightarrow>
                 (case run_update s projectId (set_columns (prepare updateData)) of
                    Inl e \<Rightarrow> (Inl (Error (''Failed to update project: '' @ e)), s)
                  | Inr (rows, s') \<Rightarrow>
                      (case single (Inr rows) of
                         Inl e \<Rightarrow> (Inl (Error (''Failed to update project: '' @ e)), s)
                       | Inr project \<Rightarrow> (Inr (Some project), s')))))"

definition updateProject ::
  "store \<Rightarrow> string \<Rightarrow> UpdateProjectDTO \<Rightarrow> string option \<Rightarrow> (error + project option) \<times> store" where
  "updateProject = updateProject_with PROJECT_STATUS_TRANSITIONS"

subsection \<open>deleteProject\<close>

definition Unauthorized_delete :: error where
  "Unauthorized_delete = Error ''Unauthorized: You can only delete your own projects''"

definition InvalidState :: error where
  "InvalidState = Error ''Can only delete projects that are still pending''"

definition deleteProject :: "store \<Rightarrow> string \<Rightarrow> string option \<Rightarrow> (error + bool) \<times> store" where
  "deleteProject s projectId clientId =
     (case single (run_select s (add_cond (EqId projectId) (from_projects False))) of
        Inl fetchError \<Rightarrow> (Inr False, s)
      | Inr existingProject \<Rightarrow>
          if not_owner clientId existingProject
          then (Inl Unauthorized_delete, s)
          else if status existingProject \<noteq> PENDING then (Inl InvalidState, s)
          else
            (case run_update s projectId (\<lambda>p. p\<lparr>status := CANCELLED\<rparr>) of
               Inl e \<Rightarrow> (Inl (Error (''Failed to delete project: '' @ e)), s)
             | Inr (rows, s') \<Rightarrow> (Inr True, s')))"

subsection \<open>createProject\<close>

text \<open>The store fills in the id and the creation time of a new row; they are the
  parameters \<open>new_id\<close> and \<open>now\<close>.\<close>

definition UserNotFound :: error where
  "UserNotFound = Error ''User not found''"

definition OnlyClients :: error where
  "OnlyClients = Error ''Only clients can create projects''"

definition createProject ::
  "store \<Rightarrow> string \<Rightarrow> int \<Rightarrow> CreateProjectDTO \<Rightarrow> (error + project) \<times> store" where
  "createProject s new_id now projectData =
     (case user_single s (c_client_id projectData) of
        Inl userError \<Rightarrow> (Inl UserNotFound, s)
      | Inr user \<Rightarrow>
          if is_freelancer user then (Inl OnlyClients, s)
          else
            (case run_insert s
                    \<lparr>project_id = new_id,
                     client_id = c_client_id projectData,
                     title = trim (c_title projectData),
                     description = trim (c_description projectData),
                     category = trim (c_category projectData),
                     budget = c_budget projectData,
                     status = PENDING,
                     created_at = now\<rparr> of
               Inl e \<Rightarrow> (Inl (Error (''Failed to create project: '' @ e)), s)
             | Inr (project, s') \<Rightarrow> (Inr project, s')))"

subsection \<open>getAllProjects\<close>

text \<open>The client summary embedded in a listed project; \<^verbatim>\<open>user?.id\<close> is undefined
  when the row carries no user.\<close>

record client =
  cl_id :: "string option"
  cl_name :: "string option"
  cl_username :: "string option"
  cl_email :: "string option"

type_synonym ProjectWithClient = "project \<times> client"

definition with_client :: "store \<Rightarrow> project \<Rightarrow> ProjectWithClient" where
  "with_client s p =
     (p, case users s (client_id p) of
           None \<Rightarrow> \<lparr>cl_id = None, cl_name = None, cl_username = None, cl_email = None\<rparr>
         | Some u \<Rightarrow> \<lparr>cl_id = Some (client_id p), cl_name = Some (name u),
                      cl_username = Some (username u), cl_email = Some (email u)\<rparr>)"

text \<open>\<^verbatim>\<open>if (x) query = step(x, query)\<close> for an optional string \<open>x\<close>.\<close>

definition if_truthy :: "string option \<Rightarrow> (string \<Rightarrow> query \<Rightarrow> query) \<Rightarrow> query \<Rightarrow> query" where
  "if_truthy x step q = (case x of None \<Rightarrow> q | Some v \<Rightarrow> if v \<noteq> [] then step v q else q)"

text \<open>\<^verbatim>\<open>if (x !== undefined) query = step(x, query)\<close>.\<close>

definition if_defined :: "'a option \<Rightarrow> ('a \<Rightarrow> query \<Rightarrow> query) \<Rightarrow> query \<Rightarrow> query" where
  "if_defined x step q = (case x of None \<Rightarrow> q | Some v \<Rightarrow> step v q)"

definition getAllProjects :: "store \<Rightarrow> ProjectFilters \<Rightarrow> error + (ProjectWithClient list \<times> nat)" where
  "getAllProjects s filters =
     (let page = (case f_page filters of None \<Rightarrow> 1 | Some n \<Rightarrow> n);
          limit = (case f_limit filters of None \<Rightarrow> 10 | Some n \<Rightarrow> n);
          query = from_projects True;
          query = if_truthy (f_category filters)
                    (\<lambda>c. add_cond (IlikeCategory (''%'' @ c @ ''%''))) query;
          query = if_defined (f_budget_min filters) (\<lambda>b. add_cond (GteBudget b)) query;
          query = if_defined (f_budget_max filters) (\<lambda>b. add_cond (LteBudget b)) query;
          query = if_truthy (f_status filters) (\<lambda>st. add_cond (EqStatus st)) query;
          offset = (page - 1) * limit;
          query = range_q offset (offset + limit - 1) query;
          query = order_created_at_desc query
      in case run_select s query of
           Inl e \<Rightarrow> Inl (Error (''Failed to fetch projects: '' @ e))
         | Inr (rows, count) \<Rightarrow> Inr (map (with_client s) rows, count))"

subsection \<open>getProjectCategories\<close>

text \<open>\<^verbatim>\<open>[...new Set(xs)]\<close>: the elements in the order of their first occurrence.\<close>

definition Set_of :: "'a list \<Rightarrow> 'a list" where
  "Set_of xs = fold (\<lambda>x acc. if x \<in> set acc then acc else acc @ [x]) xs []"

text \<open>\<^verbatim>\<open>Array.prototype.sort()\<close> without a comparator orders strings by their code
  units, a proper prefix before its extensions: the lexicographic order on \<open>string\<close>.\<close>

definition getProjectCategories :: "store \<Rightarrow> error + string list" where
  "getProjectCategories s =
     (case run_select s (add_cond (NeqStatus CANCELLED) (from_projects False)) of
        Inl e \<Rightarrow> Inl (Error (''Failed to fetch categories: '' @ e))
      | Inr (categories, count) \<Rightarrow> Inr (sort (Set_of (map category categories))))"

section \<open>Project request handlers\<close>

text \<open>
  What a handler does with its response object: it sends a JSON body with a status code
  (\<open>Json code success message data\<close>), hands an exception to \<^verbatim>\<open>next\<close>, the generic
  error path, or, where it has no \<^verbatim>\<open>try\<close>, lets the exception escape.
\<close>

datatype 'a response = Json nat bool string "'a option" | Next error | Rejected error

text \<open>The test of
  \<^verbatim>\<open>/^[0-9a-f]{8}-[0-9a-f]{4}-[1-5][0-9a-f]{3}-[89ab][0-9a-f]{3}-[0-9a-f]{12}$/i\<close>:
  one character class per position.\<close>

definition hex :: string where
  "hex = ''0123456789abcdefABCDEF''"

definition uuid_classes :: "string list" where
  "uuid_classes =
     [hex, hex, hex, hex, hex, hex, hex, hex, ''-'',
      hex, hex, hex, hex, ''-'',
      ''12345'', hex, hex, hex, ''-'',
      ''89abAB'', hex, hex, hex, ''-'',
      hex, hex, hex, hex, hex, hex, hex, hex, hex, hex, hex, hex]"

definition uuidRegex_test :: "string \<Rightarrow> bool" where
  "uuidRegex_test s = list_all2 (\<lambda>cls c. c \<in> set cls) uuid_classes s"

text \<open>\<^verbatim>\<open>Array.prototype.join\<close>.\<close>

fun join :: "string \<Rightarrow> string list \<Rightarrow> string" where
  "join sep [] = []"
| "join sep [x] = x"
| "join sep (x # y # ys) = x @ sep @ join sep (y # ys)"

definition invalid_status_field :: "UpdateProjectDTO \<Rightarrow> bool" where
  "invalid_status_field updateData =
     (case u_status updateData of
        None \<Rightarrow> False
      | Some st \<Rightarrow> st \<noteq> [] \<and> st \<notin> set ProjectStatus_values)"

definition negative_budget :: "UpdateProjectDTO \<Rightarrow> bool" where
  "negative_budget updateData = (case u_budget updateData of None \<Rightarrow> False | Some b \<Rightarrow> b < 0)"

text \<open>The body of a create request as the handler receives it: any field may be
  missing.\<close>

record CreateProjectBody =
  b_client_id :: "string option"
  b_title :: "string option"
  b_description :: "string option"
  b_category :: "string option"
  b_budget :: "rat option"

definition missing_project_fields :: "CreateProjectBody \<Rightarrow> bool" where
  "missing_project_fields body =
     (\<not> truthy (b_client_id body) \<or> \<not> truthy (b_title body)
      \<or> \<not> truthy (b_description body) \<or> \<not> truthy (b_category body)
      \<or> b_budget body = None)"

definition dto_of :: "CreateProjectBody \<Rightarrow> CreateProjectDTO" where
  "dto_of body =
     \<lparr>c_client_id = the (b_client_id body),
      c_title = the (b_title body),
      c_description = the (b_description body),
      c_category = the (b_category body),
      c_budget = the (b_budget body)\<rparr>"

definition createProjectHandler ::
  "store \<Rightarrow> string \<Rightarrow> int \<Rightarrow> CreateProjectBody \<Rightarrow> project response \<times> store" where
  "createProjectHandler s new_id now body =
     (if missing_project_fields body
        then (Json 400 False
                ''Missing required fields: client_id, title, description, category, budget''
                None, s)
      else if the (b_budget body) < 0
        then (Json 400 False ''Budget must be a positive number'' None, s)
      else
        (case createProject s new_id now (dto_of body) of
           (Inr newProject, s') \<Rightarrow>
             (Json 201 True ''Project created successfully'' (Some newProject), s')
         | (Inl e, s') \<Rightarrow>
             if message e = ''Only clients can create projects''
               then (Json 403 False ''Only clients can create projects'' None, s')
             else if message e = ''User not found''
               then (Json 404 False ''User not found'' None, s')
             else (Next e, s')))"

definition updateProjectHandler ::
  "store \<Rightarrow> string \<Rightarrow> UpdateProjectDTO \<Rightarrow> project response \<times> store" where
  "updateProjectHandler s i updateData =
     (if \<not> uuidRegex_test i then (Json 400 False ''Invalid project ID format'' None, s)
      else if negative_budget updateData
        then (Json 400 False ''Budget must be a positive number'' None, s)
      else if invalid_status_field updateData
        then (Json 400 False
                (''Invalid status. Must be one of: '' @ join '', '' ProjectStatus_values) None, s)
      else
        (case updateProject s i updateData None of
           (Inr None, s') \<Rightarrow> (Json 404 False ''Project not found'' None, s')
         | (Inr (Some updatedProject), s') \<Rightarrow>
             (Json 200 True ''Project updated successfully'' (Some updatedProject), s')
         | (Inl e, s') \<Rightarrow>
             if message e = ''Unauthorized: You can only update your own projects''
               then (Json 403 False ''You can only update your own projects'' None, s')
             else if includes_str (message e) ''Invalid status transition''
               then (Json 400 False (message e) None, s')
             else (Next e, s')))"

definition deleteProjectHandler :: "store \<Rightarrow> string \<Rightarrow> project response \<times> store" where
  "deleteProjectHandler s i =
     (if \<not> uuidRegex_test i then (Json 400 False ''Invalid project ID format'' None, s)
      else
        (case deleteProject s i None of
           (Inr deleted, s') \<Rightarrow>
             if \<not> deleted then (Json 404 False ''Project not found'' None, s')
             else (Json 200 True ''Project deleted successfully'' None, s')
         | (Inl e, s') \<Rightarrow>
             if message e = ''Unauthorized: You can only delete your own projects''
               then (Json 403 False ''You can only delete your own projects'' None, s')
             else if message e = ''Can only delete projects that are still pending''
               then (Json 400 False ''Can only delete projects that are still pending'' None, s')
             else (Next e, s')))"

section \<open>Contract request handlers (contract.controller.ts)\<close>

text \<open>Modelled from the spec: the status codes of \<^verbatim>\<open>HTTP_STATUS\<close> (types/api.type is
  not among the sources); the spec's error taxonomy gives 400 to validation and
  transition errors, 404 to a missing entity, 201 and 200 to success.\<close>

definition HTTP_STATUS_OK :: nat where "HTTP_STATUS_OK = 200"
definition HTTP_STATUS_CREATED :: nat where "HTTP_STATUS_CREATED = 201"
definition HTTP_STATUS_BAD_REQUEST :: nat where "HTTP_STATUS_BAD_REQUEST = 400"
definition HTTP_STATUS_NOT_FOUND :: nat where "HTTP_STATUS_NOT_FOUND = 404"

text \<open>Modelled from the spec: \<^verbatim>\<open>CONTRACT_TYPES\<close> of utils/validation, which is not
  among the sources; the spec has contract_type in {project, service}.\<close>

definition CONTRACT_TYPES :: "string list" where
  "CONTRACT_TYPES = [''project'', ''service'']"

text \<open>Modelled from the spec: \<^verbatim>\<open>ACTIVE_ESCROW_STATUSES\<close> of utils/validation, which is
  not among the sources; the spec has the new escrow status in {funded, released,
  disputed}, as the handler's own error message does.\<close>

definition ACTIVE_ESCROW_STATUSES :: "string list" where
  "ACTIVE_ESCROW_STATUSES = [''funded'', ''released'', ''disputed'']"

record CreateContractDTO =
  d_contract_type :: "string option"
  d_freelancer_id :: "string option"
  d_client_id :: "string option"
  d_contract_on_chain_id :: "string option"
  d_amount_locked :: "rat option"
  d_project_id :: "string option"
  d_service_request_id :: "string option"

record UpdateContractDTO =
  e_escrow_status :: "string option"
  e_user_id :: "string option"

text \<open>The required-field test of \<open>createContractHandler\<close>.\<close>

definition missing_required :: "CreateContractDTO \<Rightarrow> bool" where
  "missing_required contractData =
     (\<not> truthy (d_contract_type contractData) \<or> \<not> truthy (d_freelancer_id contractData)
      \<or> \<not> truthy (d_client_id contractData)
      \<or> \<not> truthy (d_contract_on_chain_id contractData)
      \<or> d_amount_locked contractData = None)"

definition apostrophe :: string where
  "apostrophe = [CHR 0x27]"

text \<open>
  The contract service is not among the sources, so the handlers take it as a
  parameter: \<open>createContract\<close> and \<open>updateContractStatus\<close> below stand for
  \<^verbatim>\<open>contractService.createContract\<close> and \<^verbatim>\<open>contractService.updateContractStatus\<close>.
\<close>

definition createContractHandler ::
  "(store \<Rightarrow> CreateContractDTO \<Rightarrow> (error + contract) \<times> store)
     \<Rightarrow> store \<Rightarrow> CreateContractDTO \<Rightarrow> contract response \<times> store" where
  "createContractHandler createContract s contractData =
     (if missing_required contractData
        then (Json HTTP_STATUS_BAD_REQUEST False
                ''Missing required fields: contract_type, freelancer_id, client_id, contract_on_chain_id, amount_locked''
                None, s)
      else if the (d_contract_type contractData) \<notin> set CONTRACT_TYPES
        then (Json HTTP_STATUS_BAD_REQUEST False
                (''contract_type must be 'project' or 'service'' @ apostrophe) None, s)
      else if the (d_amount_locked contractData) \<le> 0
        then (Json HTTP_STATUS_BAD_REQUEST False ''amount_locked must be greater than 0'' None, s)
      else if length (trim (the (d_contract_on_chain_id contractData))) = 0
        then (Json HTTP_STATUS_BAD_REQUEST False ''contract_on_chain_id cannot be empty'' None, s)
      else
        (case createContract s contractData of
           (Inr newContract, s') \<Rightarrow>
             (Json HTTP_STATUS_CREATED True ''Contract created successfully'' (Some newContract), s')
         | (Inl e, s') \<Rightarrow>
             if message e = ''Freelancer or client not found''
               then (Json HTTP_STATUS_BAD_REQUEST False ''Freelancer or client not found'' None, s')
             else if message e = ''Freelancer and client cannot be the same user''
               then (Json HTTP_STATUS_BAD_REQUEST False
                       ''Freelancer and client cannot be the same user'' None, s')
             else if includes_str (message e) ''is required for''
               then (Json HTTP_STATUS_BAD_REQUEST False (message e) None, s')
             else if includes_str (message e) ''Invalid''
               then (Json 400 False (message e) None, s')
             else (Next e, s')))"

text \<open>\<^verbatim>\<open>UUID_REGEX\<close> of utils/validation is not among the sources either; its test is the
  parameter \<open>UUID_REGEX_test\<close>.\<close>

definition updateContractStatusHandler ::
  "(string \<Rightarrow> bool)
     \<Rightarrow> (store \<Rightarrow> string \<Rightarrow> UpdateContractDTO \<Rightarrow> string option
           \<Rightarrow> (error + contract option) \<times> store)
     \<Rightarrow> store \<Rightarrow> string \<Rightarrow> UpdateContractDTO \<Rightarrow> contract response \<times> store" where
  "updateContractStatusHandler UUID_REGEX_test updateContractStatus s i updateData =
     (if \<not> UUID_REGEX_test i then (Json 400 False ''Invalid contract ID format'' None, s)
      else if \<not> truthy (e_escrow_status updateData)
        then (Json HTTP_STATUS_BAD_REQUEST False ''escrow_status is required'' None, s)
      else if the (e_escrow_status updateData) \<notin> set ACTIVE_ESCROW_STATUSES
        then (Json HTTP_STATUS_BAD_REQUEST False
                (''escrow_status must be 'funded', 'released', or 'disputed'' @ apostrophe) None, s)
      else
        (case updateContractStatus s i updateData (e_user_id updateData) of
           (Inl e, s') \<Rightarrow> (Rejected e, s')
         | (Inr None, s') \<Rightarrow> (Json HTTP_STATUS_NOT_FOUND False ''Contract not found'' None, s')
         | (Inr (Some updatedContract), s') \<Rightarrow>
             (Json HTTP_STATUS_OK True ''Contract status updated successfully''
                (Some updatedContract), s')))"

text \<open>Modelled from the spec: \<^verbatim>\<open>contractService.createContract\<close> (services/contract.service
  is not among the sources). The spec has it validate the contract type, the amount,
  the on-chain id and that freelancer and client differ (InvalidInput), then that both
  resolve to existing users (NotFound, message "Freelancer or client not found", one
  combined check), then that the reference its type requires is present
  (InvalidInput), and insert the row with escrow status pending. The id and the
  creation time of the new row are the store's, \<open>new_id\<close> and \<open>now\<close>.\<close>

definition createContract ::
  "string \<Rightarrow> int \<Rightarrow> store \<Rightarrow> CreateContractDTO \<Rightarrow> (error + contract) \<times> store" where
  "createContract new_id now s d =
     (if missing_required d then (Inl (Error ''Invalid input: missing required fields''), s)
      else if the (d_contract_type d) \<notin> set CONTRACT_TYPES
        then (Inl (Error ''Invalid contract type''), s)
      else if the (d_amount_locked d) \<le> 0 then (Inl (Error ''Invalid amount_locked''), s)
      else if trim (the (d_contract_on_chain_id d)) = []
        then (Inl (Error ''Invalid contract_on_chain_id''), s)
      else if d_freelancer_id d = d_client_id d
        then (Inl (Error ''Freelancer and client cannot be the same user''), s)
      else if users s (the (d_freelancer_id d)) = None \<or> users s (the (d_client_id d)) = None
        then (Inl (Error ''Freelancer or client not found''), s)
      else if the (d_contract_type d) = ''project'' \<and> \<not> truthy (d_project_id d)
        then (Inl (Error ''project_id is required for project contracts''), s)
      else if the (d_contract_type d) = ''service'' \<and> \<not> truthy (d_service_request_id d)
        then (Inl (Error ''service_request_id is required for service contracts''), s)
      else
        (let row = \<lparr>contract_id = new_id,
                    contract_type = the (d_contract_type d),
                    k_project_id = d_project_id d,
                    k_service_request_id = d_service_request_id d,
                    freelancer_id = the (d_freelancer_id d),
                    k_client_id = the (d_client_id d),
                    contract_on_chain_id = the (d_contract_on_chain_id d),
                    escrow_status = ''pending'',
                    amount_locked = the (d_amount_locked d),
                    k_created_at = now\<rparr>
         in (Inr row, s\<lparr>contracts := contracts s @ [row]\<rparr>)))"

section \<open>The listing as the specification words it\<close>

text \<open>
  The selection the specification describes: the category filter is contained in the
  category regardless of case (the two are compared after the case folding \<open>lc\<close>), the
  budget lies within the inclusive bounds, the status is the one asked for; an absent
  filter selects every row.
\<close>

definition contains_ci :: "(char \<Rightarrow> char) \<Rightarrow> string \<Rightarrow> string \<Rightarrow> bool" where
  "contains_ci lc cat c = includes_str (map lc cat) (map lc c)"

definition selected :: "(char \<Rightarrow> char) \<Rightarrow> ProjectFilters \<Rightarrow> project \<Rightarrow> bool" where
  "selected lc f p =
     ((case f_category f of None \<Rightarrow> True | Some c \<Rightarrow> contains_ci lc (category p) c)
      \<and> (case f_budget_min f of None \<Rightarrow> True | Some b \<Rightarrow> b \<le> budget p)
      \<and> (case f_budget_max f of None \<Rightarrow> True | Some b \<Rightarrow> budget p \<le> b)
      \<and> (case f_status f of None \<Rightarrow> True | Some st \<Rightarrow> status p = st))"

definition newest_first :: "project list \<Rightarrow> project list" where
  "newest_first rows = sort_key (\<lambda>p. - created_at p) rows"

definition page_of :: "ProjectFilters \<Rightarrow> int" where
  "page_of f = (case f_page f of None \<Rightarrow> 1 | Some n \<Rightarrow> n)"

definition limit_of :: "ProjectFilters \<Rightarrow> int" where
  "limit_of f = (case f_limit f of None \<Rightarrow> 10 | Some n \<Rightarrow> n)"

text \<open>The page: the rows selected, newest first, from offset (page - 1) * limit on, at
  most limit of them; and the number of rows selected.\<close>

definition listing :: "store \<Rightarrow> ProjectFilters \<Rightarrow> project list \<times> nat" where
  "listing s f =
     (take (nat (limit_of f))
        (drop (nat ((page_of f - 1) * limit_of f))
           (newest_first (filter (selected (fold_case s) f) (projects s)))),
      length (filter (selected (fold_case s) f) (projects s)))"

text \<open>A category filter with none of the characters a pattern reads specially.\<close>

definition pattern_free :: "string \<Rightarrow> bool" where
  "pattern_free c = list_all (\<lambda>ch. ch \<notin> set [CHR ''%'', CHR ''_'', CHR ''*'', CHR 0x5C]) c"

text \<open>Every project's owner is a row of \<open>users\<close>: the foreign key the embedding of
  \<^verbatim>\<open>users!inner\<close> rests on.\<close>

definition owners_exist :: "store \<Rightarrow> bool" where
  "owners_exist s = list_all (\<lambda>p. users s (client_id p) \<noteq> None) (projects s)"

section \<open>A store to run the services on\<close>

text \<open>Two users, a client and a freelancer, and five projects of the client: one in
  each status of the enum, and one row whose status is outside it.\<close>

definition alice_id :: string where "alice_id = ''aaaaaaaa-0000-4000-8000-000000000001''"
definition bob_id :: string where "bob_id = ''bbbbbbbb-0000-4000-8000-000000000002''"
definition carol_id :: string where "carol_id = ''cccccccc-0000-4000-8000-000000000003''"

definition alice :: user where
  "alice = \<lparr>is_freelancer = False, name = ''Alice'', username = ''alice'', email = ''a@x.io''\<rparr>"

definition bob :: user where
  "bob = \<lparr>is_freelancer = True, name = ''Bob'', username = ''bob'', email = ''b@x.io''\<rparr>"

definition id1 :: string where "id1 = ''11111111-1111-4111-8111-111111111111''"
definition id2 :: string where "id2 = ''22222222-2222-4222-8222-222222222222''"
definition id3 :: string where "id3 = ''33333333-3333-4333-8333-333333333333''"
definition id4 :: string where "id4 = ''44444444-4444-4444-8444-444444444444''"
definition id5 :: string where "id5 = ''55555555-5555-4555-8555-555555555555''"

definition row :: "string \<Rightarrow> string \<Rightarrow> rat \<Rightarrow> string \<Rightarrow> int \<Rightarrow> project" where
  "row i cat b st ts =
     \<lparr>project_id = i, client_id = alice_id, title = ''Job'', description = ''Work'',
      category = cat, budget = b, status = st, created_at = ts\<rparr>"

definition p1 :: project where "p1 = row id1 ''Web Design'' 300 PENDING 10"
definition p2 :: project where "p2 = row id2 ''design'' 150 IN_PROGRESS 30"
definition p3 :: project where "p3 = row id3 ''Writing'' 800 COMPLETED 20"
definition p4 :: project where "p4 = row id4 ''web design'' 450 CANCELLED 40"
definition p5 :: project where "p5 = row id5 ''Data'' 50 ''archived'' 5"

text \<open>A case folding for the store below: that of the letters of Latin-1, \<open>A\<close> to \<open>Z\<close> and
  the accented capitals 0xC0 to 0xDE (0xD7, the multiplication sign, apart), each taken
  to the small letter 0x20 above it.\<close>

definition capitals :: string where
  "capitals =
     [CHR 0x41, CHR 0x42, CHR 0x43, CHR 0x44, CHR 0x45, CHR 0x46, CHR 0x47, CHR 0x48,
      CHR 0x49, CHR 0x4A, CHR 0x4B, CHR 0x4C, CHR 0x4D, CHR 0x4E, CHR 0x4F, CHR 0x50,
      CHR 0x51, CHR 0x52, CHR 0x53, CHR 0x54, CHR 0x55, CHR 0x56, CHR 0x57, CHR 0x58,
      CHR 0x59, CHR 0x5A, CHR 0xC0, CHR 0xC1, CHR 0xC2, CHR 0xC3, CHR 0xC4, CHR 0xC5,
      CHR 0xC6, CHR 0xC7, CHR 0xC8, CHR 0xC9, CHR 0xCA, CHR 0xCB, CHR 0xCC, CHR 0xCD,
      CHR 0xCE, CHR 0xCF, CHR 0xD0, CHR 0xD1, CHR 0xD2, CHR 0xD3, CHR 0xD4, CHR 0xD5,
      CHR 0xD6, CHR 0xD8, CHR 0xD9, CHR 0xDA, CHR 0xDB, CHR 0xDC, CHR 0xDD, CHR 0xDE]"

definition small_letters :: string where
  "small_letters =
     [CHR 0x61, CHR 0x62, CHR 0x63, CHR 0x64, CHR 0x65, CHR 0x66, CHR 0x67, CHR 0x68,
      CHR 0x69, CHR 0x6A, CHR 0x6B, CHR 0x6C, CHR 0x6D, CHR 0x6E, CHR 0x6F, CHR 0x70,
      CHR 0x71, CHR 0x72, CHR 0x73, CHR 0x74, CHR 0x75, CHR 0x76, CHR 0x77, CHR 0x78,
      CHR 0x79, CHR 0x7A, CHR 0xE0, CHR 0xE1, CHR 0xE2, CHR 0xE3, CHR 0xE4, CHR 0xE5,
      CHR 0xE6, CHR 0xE7, CHR 0xE8, CHR 0xE9, CHR 0xEA, CHR 0xEB, CHR 0xEC, CHR 0xED,
      CHR 0xEE, CHR 0xEF, CHR 0xF0, CHR 0xF1, CHR 0xF2, CHR 0xF3, CHR 0xF4, CHR 0xF5,
      CHR 0xF6, CHR 0xF8, CHR 0xF9, CHR 0xFA, CHR 0xFB, CHR 0xFC, CHR 0xFD, CHR 0xFE]"

definition latin1_lower :: "char \<Rightarrow> char" where
  "latin1_lower c = (case map_of (zip capitals small_letters) c of Some d \<Rightarrow> d | None \<Rightarrow> c)"

definition shop :: store where
  "shop = \<lparr>users = [alice_id \<mapsto> alice, bob_id \<mapsto> bob],
           projects = [p1, p2, p3, p4, p5],
           contracts = [],
           fold_case = latin1_lower\<rparr>"

text \<open>A store with two projects whose categories differ in case only, of an
  accented letter too: CAF and caf, each followed by its E with acute accent, 0xC9 and
  0xE9.\<close>

definition cafes :: store where
  "cafes = \<lparr>users = [alice_id \<mapsto> alice],
            projects = [row id1 [CHR ''C'', CHR ''A'', CHR ''F'', CHR 0xC9] 300 PENDING 10,
                        row id2 [CHR ''c'', CHR ''a'', CHR ''f'', CHR 0xE9] 150 PENDING 30],
            contracts = [],
            fold_case = latin1_lower\<rparr>"

definition set_status :: "string \<Rightarrow> UpdateProjectDTO" where
  "set_status st = \<lparr>u_title = None, u_description = None, u_category = None,
                    u_budget = None, u_status = Some st\<rparr>"

text \<open>A create request with white space around its title and category.\<close>

definition logo_job :: CreateProjectBody where
  "logo_job = \<lparr>b_client_id = Some alice_id, b_title = Some ''  Logo '',
               b_description = Some ''A logo'', b_category = Some '' Design'',
               b_budget = Some 120\<rparr>"

definition id6 :: string where "id6 = ''66666666-6666-4666-8666-666666666666''"

text \<open>A contract request whose freelancer is no user of the store, a status update that
  asks for pending, and a contract service that finds no contract.\<close>

definition gig :: CreateContractDTO where
  "gig = \<lparr>d_contract_type = Some ''project'', d_freelancer_id = Some carol_id,
           d_client_id = Some alice_id, d_contract_on_chain_id = Some ''0x1234567890abcdef'',
           d_amount_locked = Some 1000, d_project_id = Some id1,
           d_service_request_id = None\<rparr>"

definition to_pending :: UpdateContractDTO where
  "to_pending = \<lparr>e_escrow_status = Some ''pending'', e_user_id = Some alice_id\<rparr>"

definition no_contract ::
  "store \<Rightarrow> string \<Rightarrow> UpdateContractDTO \<Rightarrow> string option \<Rightarrow> (error + contract option) \<times> store" where
  "no_contract s i d u = (Inr None, s)"

text \<open>Filters on category, budget and page.\<close>

definition filters :: "string option \<Rightarrow> rat option \<Rightarrow> rat option \<Rightarrow> int option \<Rightarrow> int option
    \<Rightarrow> ProjectFilters" where
  "filters c lo hi pg n =
     \<lparr>f_category = c, f_budget_min = lo, f_budget_max = hi, f_status = None,
      f_page = pg, f_limit = n\<rparr>"

section \<open>Facts about the store\<close>

lemma fetch_by_id:
  "single (run_select s (add_cond (EqId i) (from_projects False))) =
     (case filter (\<lambda>p. project_id p = i) (projects s) of
        [p] \<Rightarrow> Inr p
      | _ \<Rightarrow> Inl ''JSON object requested, multiple (or no) rows returned'')"
  by (simp add: single_def run_select_def add_cond_def from_projects_def matching_def
      ordered_def in_range_def)

lemma fetch_one:
  "filter (\<lambda>p. project_id p = i) (projects s) = [p0] \<Longrightarrow>
   single (run_select s (add_cond (EqId i) (from_projects False))) = Inr p0"
  by (simp add: fetch_by_id)

lemma filter_map_update:
  "filter (\<lambda>p. project_id p = i) xs = [p0] \<Longrightarrow> project_id (f p0) = i \<Longrightarrow>
   filter (\<lambda>p. project_id p = i) (map (\<lambda>p. if project_id p = i then f p else p) xs) = [f p0]"
proof (induction xs)
  case Nil
  then show ?case by simp
next
  case (Cons x xs)
  show ?case
  proof (cases "project_id x = i")
    case True
    with Cons.prems have x: "x = p0" and rest: "filter (\<lambda>p. project_id p = i) xs = []"
      by simp_all
    from rest have "filter (\<lambda>p. project_id p = i) (map (\<lambda>p. if project_id p = i then f p else p) xs) = []"
      by (induction xs) (auto split: if_splits)
    with True x Cons.prems(2) show ?thesis by simp
  next
    case False
    with Cons show ?thesis by simp
  qed
qed

lemma update_one:
  "filter (\<lambda>p. project_id p = i) (projects s) = [p0] \<Longrightarrow>
   run_update s i f =
     Inr (([f p0], 1), s\<lparr>projects := map (\<lambda>p. if project_id p = i then f p else p) (projects s)\<rparr>)"
  by (simp add: run_update_def)

lemma single_one: "single (Inr ([p], n)) = Inr p"
  by (simp add: single_def)

lemma updateProject_with_found:
  assumes "filter (\<lambda>p. project_id p = i) (projects s) = [p0]"
    and "\<not> not_owner cid p0"
  shows "updateProject_with tbl s i u cid =
     (case check_transition tbl (status p0) (u_status u) of
        Some e \<Rightarrow> (Inl e, s)
      | None \<Rightarrow> (Inr (Some (set_columns (prepare u) p0)),
                 s\<lparr>projects := map (\<lambda>p. if project_id p = i then set_columns (prepare u) p else p) (projects s)\<rparr>))"
  using assms
  by (simp add: updateProject_with_def fetch_one update_one single_one split: option.splits)

lemma transitions_table:
  "map_of PROJECT_STATUS_TRANSITIONS PENDING = Some [IN_PROGRESS, CANCELLED]"
  "map_of PROJECT_STATUS_TRANSITIONS IN_PROGRESS = Some [COMPLETED, CANCELLED]"
  "map_of PROJECT_STATUS_TRANSITIONS COMPLETED = Some []"
  "map_of PROJECT_STATUS_TRANSITIONS CANCELLED = Some []"
  by (simp_all add: PROJECT_STATUS_TRANSITIONS_def PENDING_def IN_PROGRESS_def
      COMPLETED_def CANCELLED_def)

lemma get_property_own:
  "map_of tbl cur = Some xs \<Longrightarrow> get_property tbl cur = Array xs"
  by (simp add: get_property_def)

lemma enum_is_key:
  "cur \<in> set ProjectStatus_values \<Longrightarrow> \<exists>xs. map_of PROJECT_STATUS_TRANSITIONS cur = Some xs"
  by (auto simp: ProjectStatus_values_def transitions_table)

lemma filter_singleton_holds: "filter P xs = [x] \<Longrightarrow> P x"
proof -
  assume "filter P xs = [x]"
  then have "x \<in> set (filter P xs)" by simp
  then show "P x" by simp
qed

section \<open>Status transitions of updateProject\<close>

text \<open>
  C1, as amended. Take a project that the store holds once under its id, whose status
  is a member of the enum, and a call that passes the ownership test with a patch whose
  status is a non-empty string (every member of the enum is one) other than the
  current status. Then the lookup in \<open>PROJECT_STATUS_TRANSITIONS\<close> gives an array; the
  call fails, with InvalidTransition and the store untouched, exactly when the target
  is not in that array; and when the target is in it the call returns the updated row,
  which carries the new status and is the row the store then holds under the id. The
  table is pending to in_progress or cancelled, in_progress to completed or cancelled,
  and nothing from completed or cancelled.
\<close>

theorem updateProject_status_transition:
  assumes found: "filter (\<lambda>p. project_id p = i) (projects s) = [p0]"
    and owner: "\<not> not_owner clientId p0"
    and cur: "status p0 \<in> set ProjectStatus_values"
    and tgt: "u_status u = Some t" "t \<noteq> []" "t \<noteq> status p0"
  shows "\<exists>allowed.
       get_property PROJECT_STATUS_TRANSITIONS (status p0) = Array allowed
     \<and> ((updateProject s i u clientId = (Inl (InvalidTransition (status p0) t), s))
          = (t \<notin> set allowed))
     \<and> ((\<exists>e. fst (updateProject s i u clientId) = Inl e) = (t \<notin> set allowed))
     \<and> (t \<in> set allowed \<longrightarrow>
          (\<exists>p' s'. updateProject s i u clientId = (Inr (Some p'), s')
             \<and> status p' = t \<and> project_id p' = i
             \<and> filter (\<lambda>p. project_id p = i) (projects s') = [p']))
     \<and> get_property PROJECT_STATUS_TRANSITIONS PENDING = Array [IN_PROGRESS, CANCELLED]
     \<and> get_property PROJECT_STATUS_TRANSITIONS IN_PROGRESS = Array [COMPLETED, CANCELLED]
     \<and> get_property PROJECT_STATUS_TRANSITIONS COMPLETED = Array []
     \<and> get_property PROJECT_STATUS_TRANSITIONS CANCELLED = Array []"
proof -
  from cur obtain allowed where key: "map_of PROJECT_STATUS_TRANSITIONS (status p0) = Some allowed"
    using enum_is_key by blast
  have look: "get_property PROJECT_STATUS_TRANSITIONS (status p0) = Array allowed"
    using key by (rule get_property_own)
  have pid: "project_id p0 = i"
    using filter_singleton_holds [OF found] .
  have chk: "check_transition PROJECT_STATUS_TRANSITIONS (status p0) (u_status u) =
     (if t \<in> set allowed then None else Some (InvalidTransition (status p0) t))"
    using tgt by (simp add: check_transition_def look)
  have run: "updateProject s i u clientId =
     (if t \<in> set allowed
      then (Inr (Some (set_columns (prepare u) p0)),
            s\<lparr>projects := map (\<lambda>p. if project_id p = i then set_columns (prepare u) p else p) (projects s)\<rparr>)
      else (Inl (InvalidTransition (status p0) t), s))"
    unfolding updateProject_def updateProject_with_found [OF found owner] chk by simp
  have st: "status (set_columns (prepare u) p0) = t"
    using tgt(1) by (simp add: set_columns_def prepare_def)
  have id': "project_id (set_columns (prepare u) p0) = i"
    using pid by (simp add: set_columns_def)
  have kept: "filter (\<lambda>p. project_id p = i)
      (map (\<lambda>p. if project_id p = i then set_columns (prepare u) p else p) (projects s))
      = [set_columns (prepare u) p0]"
    using found id' by (rule filter_map_update)
  have bad: "(updateProject s i u clientId = (Inl (InvalidTransition (status p0) t), s))
      = (t \<notin> set allowed)"
    by (simp add: run)
  have fails: "(\<exists>e. fst (updateProject s i u clientId) = Inl e) = (t \<notin> set allowed)"
    by (simp add: run)
  have good: "t \<in> set allowed \<longrightarrow>
      (\<exists>p' s'. updateProject s i u clientId = (Inr (Some p'), s')
         \<and> status p' = t \<and> project_id p' = i
         \<and> filter (\<lambda>p. project_id p = i) (projects s') = [p'])"
    using st id' kept by (simp add: run)
  have tbl: "get_property PROJECT_STATUS_TRANSITIONS PENDING = Array [IN_PROGRESS, CANCELLED]"
    "get_property PROJECT_STATUS_TRANSITIONS IN_PROGRESS = Array [COMPLETED, CANCELLED]"
    "get_property PROJECT_STATUS_TRANSITIONS COMPLETED = Array []"
    "get_property PROJECT_STATUS_TRANSITIONS CANCELLED = Array []"
    by (simp_all add: get_property_own transitions_table)
  show ?thesis
    using look bad fails good tbl by blast
qed

lemma shop_find1: "filter (\<lambda>p. project_id p = id1) (projects shop) = [p1]"
  by (simp add: shop_def p1_def p2_def p3_def p4_def p5_def row_def id1_def id2_def id3_def
      id4_def id5_def)

theorem updateProject_status_transition_witness:
  "filter (\<lambda>p. project_id p = id1) (projects shop) = [p1]
   \<and> \<not> not_owner None p1
   \<and> status p1 \<in> set ProjectStatus_values
   \<and> u_status (set_status IN_PROGRESS) = Some IN_PROGRESS
   \<and> IN_PROGRESS \<noteq> [] \<and> IN_PROGRESS \<noteq> status p1
   \<and> (\<exists>p' s'. updateProject shop id1 (set_status IN_PROGRESS) None = (Inr (Some p'), s')
         \<and> status p' = IN_PROGRESS
         \<and> filter (\<lambda>p. project_id p = id1) (projects s') = [p'])"
proof -
  have h1: "filter (\<lambda>p. project_id p = id1) (projects shop) = [p1]"
    by (rule shop_find1)
  have h2: "\<not> not_owner None p1" by (simp add: not_owner_def)
  have h3: "status p1 \<in> set ProjectStatus_values"
    by (simp add: p1_def row_def ProjectStatus_values_def)
  have h4: "u_status (set_status IN_PROGRESS) = Some IN_PROGRESS" by (simp add: set_status_def)
  have h5: "IN_PROGRESS \<noteq> []" by (simp add: IN_PROGRESS_def)
  have h6: "IN_PROGRESS \<noteq> status p1" by (simp add: p1_def row_def IN_PROGRESS_def PENDING_def)
  have st: "status p1 = PENDING" by (simp add: p1_def row_def)
  from updateProject_status_transition [OF h1 h2 h3 h4 h5 h6]
  have "\<exists>p' s'. updateProject shop id1 (set_status IN_PROGRESS) None = (Inr (Some p'), s')
         \<and> status p' = IN_PROGRESS
         \<and> filter (\<lambda>p. project_id p = id1) (projects s') = [p']"
    unfolding st by auto
  with h1 h2 h3 h4 h5 h6 show ?thesis by blast
qed

text \<open>
  The claim as stated fails for a patch whose status is the empty string: it differs
  from the status of the completed project and is not in the (empty) array of the
  table, yet the service skips the check, as the handler skips its own, and the empty
  status is written.
\<close>

theorem updateProject_empty_status_counterexample:
  "filter (\<lambda>p. project_id p = id3) (projects shop) = [p3]
   \<and> status p3 = COMPLETED
   \<and> \<not> not_owner None p3
   \<and> u_status (set_status []) = Some []
   \<and> [] \<noteq> status p3
   \<and> get_property PROJECT_STATUS_TRANSITIONS (status p3) = Array []
   \<and> updateProject shop id3 (set_status []) None
       = (Inr (Some (p3\<lparr>status := []\<rparr>)),
          shop\<lparr>projects := [p1, p2, p3\<lparr>status := []\<rparr>, p4, p5]\<rparr>)
   \<and> fst (updateProject shop id3 (set_status []) None)
       \<noteq> Inl (InvalidTransition (status p3) [])
   \<and> fst (updateProjectHandler shop id3 (set_status []))
       = Json 200 True ''Project updated successfully'' (Some (p3\<lparr>status := []\<rparr>))"
proof -
  have h1: "filter (\<lambda>p. project_id p = id3) (projects shop) = [p3]"
    by (simp add: shop_def p1_def p2_def p3_def p4_def p5_def row_def id1_def id2_def id3_def
        id4_def id5_def)
  have h2: "\<not> not_owner None p3" by (simp add: not_owner_def)
  have st: "status p3 = COMPLETED" by (simp add: p3_def row_def)
  have h3: "u_status (set_status []) = Some []" by (simp add: set_status_def)
  have h4: "[] \<noteq> status p3" by (simp add: st COMPLETED_def)
  have tbl: "get_property PROJECT_STATUS_TRANSITIONS (status p3) = Array []"
    by (simp add: st get_property_own transitions_table)
  have chk: "check_transition PROJECT_STATUS_TRANSITIONS (status p3) (u_status (set_status []))
      = None"
    by (simp add: check_transition_def h3)
  have new: "set_columns (prepare (set_status [])) p = p\<lparr>status := []\<rparr>" for p
    by (simp add: set_columns_def prepare_def set_status_def trim_field_def)
  have rows: "map (\<lambda>p. if project_id p = id3 then p\<lparr>status := []\<rparr> else p) (projects shop)
      = [p1, p2, p3\<lparr>status := []\<rparr>, p4, p5]"
    by (simp add: shop_def p1_def p2_def p3_def p4_def p5_def row_def id1_def id2_def id3_def
        id4_def id5_def)
  have run: "updateProject shop id3 (set_status []) None
       = (Inr (Some (p3\<lparr>status := []\<rparr>)),
          shop\<lparr>projects := [p1, p2, p3\<lparr>status := []\<rparr>, p4, p5]\<rparr>)"
    unfolding updateProject_def updateProject_with_found [OF h1 h2] chk new rows by simp
  have differs: "fst (updateProject shop id3 (set_status []) None)
       \<noteq> Inl (InvalidTransition (status p3) [])"
    by (simp add: run)
  have g1: "uuidRegex_test id3"
    by (simp add: uuidRegex_test_def uuid_classes_def hex_def id3_def)
  have g2: "\<not> negative_budget (set_status [])"
    by (simp add: negative_budget_def set_status_def)
  have g3: "\<not> invalid_status_field (set_status [])"
    by (simp add: invalid_status_field_def set_status_def)
  have handler: "fst (updateProjectHandler shop id3 (set_status []))
       = Json 200 True ''Project updated successfully'' (Some (p3\<lparr>status := []\<rparr>))"
    using g1 g2 g3 by (simp add: updateProjectHandler_def run)
  from h1 st h2 h3 h4 tbl run differs handler show ?thesis by blast
qed

section \<open>A status outside the enum\<close>

lemma not_enum_no_key:
  "cur \<notin> set ProjectStatus_values \<Longrightarrow> map_of PROJECT_STATUS_TRANSITIONS cur = None"
  by (simp add: ProjectStatus_values_def PROJECT_STATUS_TRANSITIONS_def)

lemma unknown_status_lookup:
  assumes "cur \<notin> set ProjectStatus_values"
  shows "get_property PROJECT_STATUS_TRANSITIONS cur = NotArray
       \<or> get_property PROJECT_STATUS_TRANSITIONS cur = Undefined"
  using not_enum_no_key [OF assms] by (simp add: get_property_def)

lemma lookup_failure_unclassified:
  assumes "lookup_failure m"
  shows "m \<noteq> ''Unauthorized: You can only update your own projects''"
    and "\<not> includes_str m ''Invalid status transition''"
  using assms by (auto simp: lookup_failure_def)

lemma check_transition_unknown:
  assumes "cur \<notin> set ProjectStatus_values" "t \<noteq> []" "t \<noteq> cur"
  shows "\<exists>m. lookup_failure m
     \<and> check_transition PROJECT_STATUS_TRANSITIONS cur (Some t) = Some (TypeError m)"
  using unknown_status_lookup [OF assms(1)] assms(2,3)
  by (auto simp: check_transition_def lookup_failure_def)

text \<open>
  C2, as amended. Take a project held once under its id whose persisted status is not a
  member of the enum, and a call that passes the ownership test with a patch whose
  status is a non-empty string other than the current status. The lookup in the
  transition table gives no array, the call to \<^verbatim>\<open>includes\<close> on what it gives raises a
  TypeError, and \<open>updateProject\<close> ends in that TypeError with the store untouched: not
  in InvalidTransition. The update handler recognises neither of its two messages and
  hands the exception to the generic error path.
\<close>

theorem updateProject_unknown_status_raises:
  assumes found: "filter (\<lambda>p. project_id p = i) (projects s) = [p0]"
    and owner: "\<not> not_owner clientId p0"
    and cur: "status p0 \<notin> set ProjectStatus_values"
    and tgt: "u_status u = Some t" "t \<noteq> []" "t \<noteq> status p0"
  shows "\<exists>m. lookup_failure m
     \<and> updateProject s i u clientId = (Inl (TypeError m), s)
     \<and> fst (updateProject s i u clientId) \<noteq> Inl (InvalidTransition (status p0) t)
     \<and> (clientId = None \<and> uuidRegex_test i \<and> \<not> negative_budget u \<and> \<not> invalid_status_field u
          \<longrightarrow> updateProjectHandler s i u = (Next (TypeError m), s))"
proof -
  from check_transition_unknown [OF cur tgt(2,3)] obtain m
    where m: "lookup_failure m"
      and chk: "check_transition PROJECT_STATUS_TRANSITIONS (status p0) (u_status u)
                  = Some (TypeError m)"
    using tgt(1) by auto
  have run: "updateProject s i u clientId = (Inl (TypeError m), s)"
    unfolding updateProject_def updateProject_with_found [OF found owner] chk by simp
  have differs: "fst (updateProject s i u clientId) \<noteq> Inl (InvalidTransition (status p0) t)"
    by (simp add: run InvalidTransition_def)
  have handler: "clientId = None \<and> uuidRegex_test i \<and> \<not> negative_budget u
        \<and> \<not> invalid_status_field u
      \<longrightarrow> updateProjectHandler s i u = (Next (TypeError m), s)"
    using run lookup_failure_unclassified [OF m]
    by (auto simp: updateProjectHandler_def)
  from m run differs handler show ?thesis by blast
qed

lemma shop_find5: "filter (\<lambda>p. project_id p = id5) (projects shop) = [p5]"
  by (simp add: shop_def p1_def p2_def p3_def p4_def p5_def row_def id1_def id2_def id3_def
      id4_def id5_def)

lemma p5_unknown: "status p5 \<notin> set ProjectStatus_values"
  by (simp add: p5_def row_def ProjectStatus_values_def PENDING_def IN_PROGRESS_def
      COMPLETED_def CANCELLED_def)

theorem updateProject_unknown_status_raises_witness:
  "filter (\<lambda>p. project_id p = id5) (projects shop) = [p5]
   \<and> \<not> not_owner None p5
   \<and> status p5 \<notin> set ProjectStatus_values
   \<and> u_status (set_status PENDING) = Some PENDING
   \<and> PENDING \<noteq> [] \<and> PENDING \<noteq> status p5
   \<and> (\<exists>m. updateProject shop id5 (set_status PENDING) None = (Inl (TypeError m), shop)
         \<and> updateProjectHandler shop id5 (set_status PENDING) = (Next (TypeError m), shop))"
proof -
  have h1: "filter (\<lambda>p. project_id p = id5) (projects shop) = [p5]"
    by (rule shop_find5)
  have h2: "\<not> not_owner None p5" by (simp add: not_owner_def)
  have h3: "status p5 \<notin> set ProjectStatus_values" by (rule p5_unknown)
  have h4: "u_status (set_status PENDING) = Some PENDING" by (simp add: set_status_def)
  have h5: "PENDING \<noteq> []" by (simp add: PENDING_def)
  have h6: "PENDING \<noteq> status p5" by (simp add: p5_def row_def PENDING_def)
  have g1: "uuidRegex_test id5"
    by (simp add: uuidRegex_test_def uuid_classes_def hex_def id5_def)
  have g2: "\<not> negative_budget (set_status PENDING)"
    by (simp add: negative_budget_def set_status_def)
  have g3: "\<not> invalid_status_field (set_status PENDING)"
    by (simp add: invalid_status_field_def set_status_def ProjectStatus_values_def)
  from updateProject_unknown_status_raises [OF h1 h2 h3 h4 h5 h6] g1 g2 g3
  have "\<exists>m. updateProject shop id5 (set_status PENDING) None = (Inl (TypeError m), shop)
         \<and> updateProjectHandler shop id5 (set_status PENDING) = (Next (TypeError m), shop)"
    by blast
  with h1 h2 h3 h4 h5 h6 show ?thesis by blast
qed

theorem updateProject_unknown_status_counterexample:
  "filter (\<lambda>p. project_id p = id5) (projects shop) = [p5]
   \<and> status p5 = ''archived''
   \<and> status p5 \<notin> set ProjectStatus_values
   \<and> updateProject shop id5 (set_status PENDING) None
       = (Inl (TypeError ''Cannot read properties of undefined (reading 'includes')''), shop)
   \<and> fst (updateProject shop id5 (set_status PENDING) None)
       \<noteq> Inl (InvalidTransition (status p5) PENDING)
   \<and> fst (updateProjectHandler shop id5 (set_status PENDING))
       = Next (TypeError ''Cannot read properties of undefined (reading 'includes')'')"
proof -
  have h1: "filter (\<lambda>p. project_id p = id5) (projects shop) = [p5]"
    by (rule shop_find5)
  have h2: "\<not> not_owner None p5" by (simp add: not_owner_def)
  have st: "status p5 = ''archived''" by (simp add: p5_def row_def)
  have look: "get_property PROJECT_STATUS_TRANSITIONS ''archived'' = Undefined"
    by (simp add: get_property_def PROJECT_STATUS_TRANSITIONS_def PENDING_def IN_PROGRESS_def
        COMPLETED_def CANCELLED_def Object_prototype_keys_def)
  have chk: "check_transition PROJECT_STATUS_TRANSITIONS (status p5)
               (u_status (set_status PENDING))
             = Some (TypeError ''Cannot read properties of undefined (reading 'includes')'')"
    by (simp add: check_transition_def st look set_status_def PENDING_def)
  have run: "updateProject shop id5 (set_status PENDING) None
       = (Inl (TypeError ''Cannot read properties of undefined (reading 'includes')''), shop)"
    unfolding updateProject_def updateProject_with_found [OF h1 h2] chk by simp
  have g1: "uuidRegex_test id5"
    by (simp add: uuidRegex_test_def uuid_classes_def hex_def id5_def)
  have g2: "\<not> negative_budget (set_status PENDING)"
    by (simp add: negative_budget_def set_status_def)
  have g3: "\<not> invalid_status_field (set_status PENDING)"
    by (simp add: invalid_status_field_def set_status_def ProjectStatus_values_def)
  have handler: "fst (updateProjectHandler shop id5 (set_status PENDING))
       = Next (TypeError ''Cannot read properties of undefined (reading 'includes')'')"
    using g1 g2 g3 by (simp add: updateProjectHandler_def run)
  have differs: "fst (updateProject shop id5 (set_status PENDING) None)
       \<noteq> Inl (InvalidTransition (status p5) PENDING)"
    by (simp add: run InvalidTransition_def)
  from h1 st p5_unknown run differs handler show ?thesis by blast
qed

section \<open>A patch that restates the current status\<close>

lemma check_transition_same: "check_transition tbl cur (Some cur) = None"
  by (simp add: check_transition_def)

lemma InvalidTransition_not_Unauthorized: "Unauthorized_update \<noteq> InvalidTransition a b"
  by (simp add: Unauthorized_update_def InvalidTransition_def)

lemma updateProject_with_refused:
  assumes "filter (\<lambda>p. project_id p = i) (projects s) = [p0]"
    and "not_owner cid p0"
  shows "updateProject_with tbl s i u cid = (Inl Unauthorized_update, s)"
  using assms by (simp add: updateProject_with_def fetch_one)

text \<open>
  C10. Take a project held once under its id and a patch whose status is its current
  status. The outcome of \<open>updateProject\<close> is the same whatever the transition table
  holds, so the table is not consulted; the call never ends in InvalidTransition; and
  a call that passes the ownership test succeeds, the row keeping its status. This
  holds for a completed or cancelled project too, whose status has no transition.
\<close>

theorem updateProject_same_status_skips_table:
  assumes found: "filter (\<lambda>p. project_id p = i) (projects s) = [p0]"
    and same: "u_status u = Some (status p0)"
  shows "(\<forall>tbl. updateProject_with tbl s i u clientId = updateProject s i u clientId)
     \<and> (\<forall>a b. fst (updateProject s i u clientId) \<noteq> Inl (InvalidTransition a b))
     \<and> (\<not> not_owner clientId p0 \<longrightarrow>
          (\<exists>p' s'. updateProject s i u clientId = (Inr (Some p'), s')
             \<and> status p' = status p0
             \<and> filter (\<lambda>p. project_id p = i) (projects s') = [p']))"
proof (cases "not_owner clientId p0")
  case True
  have run: "\<And>tbl. updateProject_with tbl s i u clientId = (Inl Unauthorized_update, s)"
    using found True by (rule updateProject_with_refused)
  show ?thesis
    using True InvalidTransition_not_Unauthorized by (simp add: updateProject_def run)
next
  case False
  let ?p = "set_columns (prepare u) p0"
  let ?s = "s\<lparr>projects := map (\<lambda>p. if project_id p = i then set_columns (prepare u) p else p) (projects s)\<rparr>"
  have run: "\<And>tbl. updateProject_with tbl s i u clientId = (Inr (Some ?p), ?s)"
    unfolding updateProject_with_found [OF found False] same check_transition_same by simp
  have st: "status ?p = status p0"
    using same by (simp add: set_columns_def prepare_def)
  have id': "project_id ?p = i"
    using filter_singleton_holds [OF found] by (simp add: set_columns_def)
  have kept: "filter (\<lambda>p. project_id p = i) (projects ?s) = [?p]"
    using filter_map_update [of i "projects s" p0 "set_columns (prepare u)"] found id' by simp
  show ?thesis
    using st kept by (simp add: updateProject_def run)
qed

lemma shop_find3: "filter (\<lambda>p. project_id p = id3) (projects shop) = [p3]"
  by (simp add: shop_def p1_def p2_def p3_def p4_def p5_def row_def id1_def id2_def id3_def
      id4_def id5_def)

lemma shop_find4: "filter (\<lambda>p. project_id p = id4) (projects shop) = [p4]"
  by (simp add: shop_def p1_def p2_def p3_def p4_def p5_def row_def id1_def id2_def id3_def
      id4_def id5_def)

theorem updateProject_same_status_skips_table_witness:
  "filter (\<lambda>p. project_id p = id3) (projects shop) = [p3]
   \<and> u_status (set_status COMPLETED) = Some (status p3)
   \<and> status p3 = COMPLETED
   \<and> get_property PROJECT_STATUS_TRANSITIONS (status p3) = Array []
   \<and> \<not> not_owner None p3
   \<and> (\<exists>p' s'. updateProject shop id3 (set_status COMPLETED) None = (Inr (Some p'), s')
         \<and> status p' = COMPLETED)
   \<and> updateProject_with [] shop id3 (set_status COMPLETED) None
       = updateProject shop id3 (set_status COMPLETED) None"
proof -
  have h1: "filter (\<lambda>p. project_id p = id3) (projects shop) = [p3]"
    by (rule shop_find3)
  have st: "status p3 = COMPLETED" by (simp add: p3_def row_def)
  have h2: "u_status (set_status COMPLETED) = Some (status p3)"
    by (simp add: set_status_def st)
  have h3: "\<not> not_owner None p3" by (simp add: not_owner_def)
  have tbl: "get_property PROJECT_STATUS_TRANSITIONS (status p3) = Array []"
    by (simp add: st get_property_own transitions_table)
  from updateProject_same_status_skips_table [OF h1 h2, of None] h3
  have "(\<exists>p' s'. updateProject shop id3 (set_status COMPLETED) None = (Inr (Some p'), s')
         \<and> status p' = COMPLETED)
      \<and> updateProject_with [] shop id3 (set_status COMPLETED) None
       = updateProject shop id3 (set_status COMPLETED) None"
    unfolding st by blast
  with h1 h2 h3 st tbl show ?thesis by blast
qed

section \<open>deleteProject\<close>

lemma fetch_none:
  "filter (\<lambda>p. project_id p = i) (projects s) = [] \<Longrightarrow>
   single (run_select s (add_cond (EqId i) (from_projects False)))
     = Inl ''JSON object requested, multiple (or no) rows returned''"
  by (simp add: fetch_by_id)

lemma deleteProject_absent:
  "filter (\<lambda>p. project_id p = i) (projects s) = [] \<Longrightarrow> deleteProject s i c = (Inr False, s)"
  by (simp add: deleteProject_def fetch_none)

lemma deleteProject_found:
  assumes "filter (\<lambda>p. project_id p = i) (projects s) = [p0]"
  shows "deleteProject s i c =
     (if not_owner c p0 then (Inl Unauthorized_delete, s)
      else if status p0 \<noteq> PENDING then (Inl InvalidState, s)
      else (Inr True,
            s\<lparr>projects := map (\<lambda>p. if project_id p = i then p\<lparr>status := CANCELLED\<rparr> else p)
                            (projects s)\<rparr>))"
  using assms by (simp add: deleteProject_def fetch_one update_one)

lemma CANCELLED_not_PENDING: "CANCELLED \<noteq> PENDING"
  by (simp add: CANCELLED_def PENDING_def)

text \<open>
  C5. \<open>deleteProject\<close> returns false and leaves the store alone when no row has the
  id. For a row held once under the id and a call that passes the ownership test: a
  status other than pending makes the call fail with InvalidState, the store
  untouched; the status pending makes it return true, and the store then holds every
  row it held, this one with the status cancelled. A second delete of the same project
  fails, with InvalidState for the same caller and with some exception for any caller.
\<close>

theorem deleteProject_soft_delete:
  "(filter (\<lambda>p. project_id p = i) (projects s) = [] \<longrightarrow>
       deleteProject s i clientId = (Inr False, s))
   \<and> (\<forall>p0. filter (\<lambda>p. project_id p = i) (projects s) = [p0] \<and> \<not> not_owner clientId p0
          \<and> status p0 \<noteq> PENDING \<longrightarrow>
        deleteProject s i clientId = (Inl InvalidState, s))
   \<and> (\<forall>p0. filter (\<lambda>p. project_id p = i) (projects s) = [p0] \<and> \<not> not_owner clientId p0
          \<and> status p0 = PENDING \<longrightarrow>
        (\<exists>s'. deleteProject s i clientId = (Inr True, s')
           \<and> projects s' = map (\<lambda>p. if project_id p = i then p\<lparr>status := CANCELLED\<rparr> else p)
                              (projects s)
           \<and> filter (\<lambda>p. project_id p = i) (projects s') = [p0\<lparr>status := CANCELLED\<rparr>]
           \<and> deleteProject s' i clientId = (Inl InvalidState, s')
           \<and> (\<forall>c. \<exists>e. deleteProject s' i c = (Inl e, s'))))"
proof -
  have absent: "filter (\<lambda>p. project_id p = i) (projects s) = [] \<longrightarrow>
       deleteProject s i clientId = (Inr False, s)"
    by (simp add: deleteProject_absent)
  have refused: "\<forall>p0. filter (\<lambda>p. project_id p = i) (projects s) = [p0]
        \<and> \<not> not_owner clientId p0 \<and> status p0 \<noteq> PENDING \<longrightarrow>
        deleteProject s i clientId = (Inl InvalidState, s)"
    by (simp add: deleteProject_found)
  have soft: "\<exists>s'. deleteProject s i clientId = (Inr True, s')
           \<and> projects s' = map (\<lambda>p. if project_id p = i then p\<lparr>status := CANCELLED\<rparr> else p)
                              (projects s)
           \<and> filter (\<lambda>p. project_id p = i) (projects s') = [p0\<lparr>status := CANCELLED\<rparr>]
           \<and> deleteProject s' i clientId = (Inl InvalidState, s')
           \<and> (\<forall>c. \<exists>e. deleteProject s' i c = (Inl e, s'))"
    if found: "filter (\<lambda>p. project_id p = i) (projects s) = [p0]"
      and owner: "\<not> not_owner clientId p0" and pending: "status p0 = PENDING" for p0
  proof -
    let ?s = "s\<lparr>projects := map (\<lambda>p. if project_id p = i then p\<lparr>status := CANCELLED\<rparr> else p)
                            (projects s)\<rparr>"
    let ?p = "p0\<lparr>status := CANCELLED\<rparr>"
    have first: "deleteProject s i clientId = (Inr True, ?s)"
      using owner pending by (simp add: deleteProject_found [OF found])
    have id': "project_id ?p = i"
      using filter_singleton_holds [OF found] by simp
    have kept: "filter (\<lambda>p. project_id p = i) (projects ?s) = [?p]"
      using filter_map_update [of i "projects s" p0 "\<lambda>p. p\<lparr>status := CANCELLED\<rparr>"] found id'
      by simp
    have owner': "\<not> not_owner clientId ?p"
      using owner by (simp add: not_owner_def)
    have second: "deleteProject ?s i clientId = (Inl InvalidState, ?s)"
      using owner' CANCELLED_not_PENDING by (simp add: deleteProject_found [OF kept])
    have any: "\<exists>e. deleteProject ?s i c = (Inl e, ?s)" for c
      using CANCELLED_not_PENDING by (simp add: deleteProject_found [OF kept])
    from first kept second any show ?thesis by auto
  qed
  from absent refused soft show ?thesis by blast
qed

lemma shop_find2: "filter (\<lambda>p. project_id p = id2) (projects shop) = [p2]"
  by (simp add: shop_def p1_def p2_def p3_def p4_def p5_def row_def id1_def id2_def id3_def
      id4_def id5_def)

lemma shop_find_none: "filter (\<lambda>p. project_id p = ''no-such-id'') (projects shop) = []"
  by (simp add: shop_def p1_def p2_def p3_def p4_def p5_def row_def id1_def id2_def id3_def
      id4_def id5_def)

theorem deleteProject_soft_delete_witness:
  "filter (\<lambda>p. project_id p = ''no-such-id'') (projects shop) = []
   \<and> deleteProject shop ''no-such-id'' None = (Inr False, shop)
   \<and> filter (\<lambda>p. project_id p = id2) (projects shop) = [p2]
   \<and> \<not> not_owner None p2 \<and> status p2 \<noteq> PENDING
   \<and> deleteProject shop id2 None = (Inl InvalidState, shop)
   \<and> filter (\<lambda>p. project_id p = id1) (projects shop) = [p1]
   \<and> \<not> not_owner None p1 \<and> status p1 = PENDING
   \<and> (\<exists>s'. deleteProject shop id1 None = (Inr True, s')
         \<and> filter (\<lambda>p. project_id p = id1) (projects s') = [p1\<lparr>status := CANCELLED\<rparr>]
         \<and> deleteProject s' id1 None = (Inl InvalidState, s'))"
proof -
  have a: "filter (\<lambda>p. project_id p = ''no-such-id'') (projects shop) = []"
    by (rule shop_find_none)
  have b: "filter (\<lambda>p. project_id p = id2) (projects shop) = [p2]"
    by (rule shop_find2)
  have b2: "\<not> not_owner None p2" by (simp add: not_owner_def)
  have b3: "status p2 \<noteq> PENDING" by (simp add: p2_def row_def IN_PROGRESS_def PENDING_def)
  have c: "filter (\<lambda>p. project_id p = id1) (projects shop) = [p1]"
    by (rule shop_find1)
  have c2: "\<not> not_owner None p1" by (simp add: not_owner_def)
  have c3: "status p1 = PENDING" by (simp add: p1_def row_def)
  have r1: "deleteProject shop ''no-such-id'' None = (Inr False, shop)"
    using deleteProject_soft_delete [of "''no-such-id''" shop None] a by blast
  have r2: "deleteProject shop id2 None = (Inl InvalidState, shop)"
    using deleteProject_soft_delete [of id2 shop None] b b2 b3 by blast
  have r3: "\<exists>s'. deleteProject shop id1 None = (Inr True, s')
         \<and> filter (\<lambda>p. project_id p = id1) (projects s') = [p1\<lparr>status := CANCELLED\<rparr>]
         \<and> deleteProject s' id1 None = (Inl InvalidState, s')"
    using deleteProject_soft_delete [of id1 shop None] c c2 c3 by blast
  from a b b2 b3 c c2 c3 r1 r2 r3 show ?thesis by blast
qed

section \<open>Ownership and the HTTP handlers\<close>

lemma check_transition_errors:
  assumes "check_transition tbl cur st = Some e"
  shows "(\<exists>m. e = TypeError m \<and> lookup_failure m) \<or> (\<exists>t. e = InvalidTransition cur t)"
proof (cases st)
  case None
  with assms show ?thesis by (simp add: check_transition_def)
next
  case (Some t)
  show ?thesis
  proof (cases "get_property tbl cur")
    case (Array xs)
    with assms Some show ?thesis
      by (auto simp: check_transition_def split: if_splits)
  next
    case NotArray
    with assms Some show ?thesis
      by (auto simp: check_transition_def lookup_failure_def split: if_splits)
  next
    case Undefined
    with assms Some show ?thesis
      by (auto simp: check_transition_def lookup_failure_def split: if_splits)
  qed
qed

lemma not_owner_None: "\<not> not_owner None p"
  by (simp add: not_owner_def)

lemma updateProject_no_client_message:
  assumes "updateProject s i u None = (Inl e, s')"
  shows "message e \<noteq> ''Unauthorized: You can only update your own projects''"
proof (cases "single (run_select s (add_cond (EqId i) (from_projects False)))")
  case (Inl a)
  with assms show ?thesis by (simp add: updateProject_def updateProject_with_def)
next
  case (Inr p)
  show ?thesis
  proof (cases "check_transition PROJECT_STATUS_TRANSITIONS (status p) (u_status u)")
    case None
    with assms Inr show ?thesis
      by (auto simp: updateProject_def updateProject_with_def not_owner_None run_update_def
          split: sum.splits)
  next
    case (Some x)
    with assms Inr have "e = x"
      by (simp add: updateProject_def updateProject_with_def not_owner_None)
    with check_transition_errors [OF Some] show ?thesis
      by (auto simp: lookup_failure_def InvalidTransition_def)
  qed
qed

lemma deleteProject_no_client_cases:
  "(\<exists>b s'. deleteProject s i None = (Inr b, s')) \<or> deleteProject s i None = (Inl InvalidState, s)"
  by (cases "single (run_select s (add_cond (EqId i) (from_projects False)))")
    (auto simp: deleteProject_def not_owner_None run_update_def)

lemma updateProjectHandler_no_403: "fst (updateProjectHandler s i u) \<noteq> Json 403 b m d"
proof (cases "updateProject s i u None")
  case (Pair r s')
  show ?thesis
  proof (cases r)
    case (Inl e)
    with Pair updateProject_no_client_message [of s i u e s'] show ?thesis
      by (simp add: updateProjectHandler_def)
  next
    case (Inr x)
    with Pair show ?thesis
      by (cases x) (simp_all add: updateProjectHandler_def)
  qed
qed

lemma deleteProjectHandler_no_403: "fst (deleteProjectHandler s i) \<noteq> Json 403 b m d"
  using deleteProject_no_client_cases [of s i]
  by (auto simp: deleteProjectHandler_def InvalidState_def split: if_splits)

lemma trim_Nil: "trim [] = []"
  by (simp add: trim_def)

lemma trim_field_cases:
  "(case trim_field x of None \<Rightarrow> d | Some y \<Rightarrow> y) = (case x of None \<Rightarrow> d | Some y \<Rightarrow> trim y)"
  by (cases x) (simp_all add: trim_field_def trim_Nil)

lemma written_fields:
  "project_id (set_columns (prepare u) p0) = project_id p0"
  "client_id (set_columns (prepare u) p0) = client_id p0"
  "created_at (set_columns (prepare u) p0) = created_at p0"
  "title (set_columns (prepare u) p0) = (case u_title u of None \<Rightarrow> title p0 | Some x \<Rightarrow> trim x)"
  "description (set_columns (prepare u) p0)
     = (case u_description u of None \<Rightarrow> description p0 | Some x \<Rightarrow> trim x)"
  "category (set_columns (prepare u) p0)
     = (case u_category u of None \<Rightarrow> category p0 | Some x \<Rightarrow> trim x)"
  "budget (set_columns (prepare u) p0) = (case u_budget u of None \<Rightarrow> budget p0 | Some b \<Rightarrow> b)"
  "status (set_columns (prepare u) p0) = (case u_status u of None \<Rightarrow> status p0 | Some st \<Rightarrow> st)"
  by (simp_all add: set_columns_def prepare_def trim_field_cases)

lemma filter_singleton_only:
  "filter P xs = [x] \<Longrightarrow> y \<in> set xs \<Longrightarrow> P y \<Longrightarrow> y = x"
  by (induction xs) (auto split: if_splits simp: filter_empty_conv)

lemma map_update_one:
  assumes "filter (\<lambda>p. project_id p = i) xs = [p0]"
  shows "map (\<lambda>p. if project_id p = i then g p else p) xs
       = map (\<lambda>p. if project_id p = i then g p0 else p) xs"
  using filter_singleton_only [OF assms] by (intro map_cong) auto

text \<open>
  C9. The update and delete handlers call \<open>updateProject\<close> and \<open>deleteProject\<close> with
  no client id. Called so, neither service ends in its Unauthorized exception, and
  neither handler ever answers 403; past its own validation a handler leaves the store
  as the service called with no client id leaves it. So for a project held once under
  a well-formed id, whoever its owner is: a valid patch that passes the status check
  is answered 200 with the updated row, which replaces the project's row in the store
  and nothing else, and which carries each field the patch gives (title, description
  and category trimmed) and the old value of every other field; and a pending project
  is soft-deleted with a 200 answer.
\<close>

theorem handlers_never_check_ownership:
  "fst (updateProject s i u None) \<noteq> Inl Unauthorized_update
   \<and> fst (deleteProject s i None) \<noteq> Inl Unauthorized_delete
   \<and> (\<forall>b m d. fst (updateProjectHandler s i u) \<noteq> Json 403 b m d)
   \<and> (\<forall>b m d. fst (deleteProjectHandler s i) \<noteq> Json 403 b m d)
   \<and> (uuidRegex_test i \<and> \<not> negative_budget u \<and> \<not> invalid_status_field u \<longrightarrow>
        snd (updateProjectHandler s i u) = snd (updateProject s i u None))
   \<and> (uuidRegex_test i \<longrightarrow> snd (deleteProjectHandler s i) = snd (deleteProject s i None))
   \<and> (\<forall>p0. filter (\<lambda>p. project_id p = i) (projects s) = [p0] \<and> uuidRegex_test i
          \<and> \<not> negative_budget u \<and> \<not> invalid_status_field u
          \<and> check_transition PROJECT_STATUS_TRANSITIONS (status p0) (u_status u) = None \<longrightarrow>
        (\<exists>p'. updateProjectHandler s i u
             = (Json 200 True ''Project updated successfully'' (Some p'),
                s\<lparr>projects := map (\<lambda>p. if project_id p = i then p' else p) (projects s)\<rparr>)
           \<and> filter (\<lambda>p. project_id p = i)
                (map (\<lambda>p. if project_id p = i then p' else p) (projects s)) = [p']
           \<and> project_id p' = project_id p0
           \<and> client_id p' = client_id p0
           \<and> created_at p' = created_at p0
           \<and> title p' = (case u_title u of None \<Rightarrow> title p0 | Some x \<Rightarrow> trim x)
           \<and> description p'
                = (case u_description u of None \<Rightarrow> description p0 | Some x \<Rightarrow> trim x)
           \<and> category p' = (case u_category u of None \<Rightarrow> category p0 | Some x \<Rightarrow> trim x)
           \<and> budget p' = (case u_budget u of None \<Rightarrow> budget p0 | Some b \<Rightarrow> b)
           \<and> status p' = (case u_status u of None \<Rightarrow> status p0 | Some st \<Rightarrow> st)))
   \<and> (\<forall>p0. filter (\<lambda>p. project_id p = i) (projects s) = [p0] \<and> uuidRegex_test i
          \<and> status p0 = PENDING \<longrightarrow>
        (\<exists>s'. deleteProjectHandler s i
           = (Json 200 True ''Project deleted successfully'' None, s')
           \<and> filter (\<lambda>p. project_id p = i) (projects s') = [p0\<lparr>status := CANCELLED\<rparr>]))"
proof -
  have a: "fst (updateProject s i u None) \<noteq> Inl Unauthorized_update"
  proof
    assume "fst (updateProject s i u None) = Inl Unauthorized_update"
    then have "updateProject s i u None = (Inl Unauthorized_update, snd (updateProject s i u None))"
      by (metis prod.collapse)
    from updateProject_no_client_message [OF this] show False
      by (simp add: Unauthorized_update_def)
  qed
  have b: "fst (deleteProject s i None) \<noteq> Inl Unauthorized_delete"
    using deleteProject_no_client_cases [of s i]
    by (auto simp: InvalidState_def Unauthorized_delete_def)
  have c: "\<forall>b m d. fst (updateProjectHandler s i u) \<noteq> Json 403 b m d"
    by (simp add: updateProjectHandler_no_403)
  have d: "\<forall>b m d. fst (deleteProjectHandler s i) \<noteq> Json 403 b m d"
    by (simp add: deleteProjectHandler_no_403)
  have e: "uuidRegex_test i \<and> \<not> negative_budget u \<and> \<not> invalid_status_field u \<longrightarrow>
        snd (updateProjectHandler s i u) = snd (updateProject s i u None)"
    by (auto simp: updateProjectHandler_def split: prod.splits sum.splits option.splits)
  have f: "uuidRegex_test i \<longrightarrow> snd (deleteProjectHandler s i) = snd (deleteProject s i None)"
    by (auto simp: deleteProjectHandler_def split: prod.splits sum.splits)
  have g: "\<exists>p'. updateProjectHandler s i u
             = (Json 200 True ''Project updated successfully'' (Some p'),
                s\<lparr>projects := map (\<lambda>p. if project_id p = i then p' else p) (projects s)\<rparr>)
           \<and> filter (\<lambda>p. project_id p = i)
                (map (\<lambda>p. if project_id p = i then p' else p) (projects s)) = [p']
           \<and> project_id p' = project_id p0
           \<and> client_id p' = client_id p0
           \<and> created_at p' = created_at p0
           \<and> title p' = (case u_title u of None \<Rightarrow> title p0 | Some x \<Rightarrow> trim x)
           \<and> description p'
                = (case u_description u of None \<Rightarrow> description p0 | Some x \<Rightarrow> trim x)
           \<and> category p' = (case u_category u of None \<Rightarrow> category p0 | Some x \<Rightarrow> trim x)
           \<and> budget p' = (case u_budget u of None \<Rightarrow> budget p0 | Some b \<Rightarrow> b)
           \<and> status p' = (case u_status u of None \<Rightarrow> status p0 | Some st \<Rightarrow> st)"
    if found: "filter (\<lambda>p. project_id p = i) (projects s) = [p0]" and valid: "uuidRegex_test i"
      "\<not> negative_budget u" "\<not> invalid_status_field u"
      and chk: "check_transition PROJECT_STATUS_TRANSITIONS (status p0) (u_status u) = None"
    for p0
  proof -
    let ?p = "set_columns (prepare u) p0"
    have run: "updateProjectHandler s i u
        = (Json 200 True ''Project updated successfully'' (Some ?p),
           s\<lparr>projects := map (\<lambda>p. if project_id p = i then set_columns (prepare u) p else p)
                           (projects s)\<rparr>)"
      using valid chk
      by (simp add: updateProjectHandler_def updateProject_def
          updateProject_with_found [OF found not_owner_None])
    have one: "map (\<lambda>p. if project_id p = i then set_columns (prepare u) p else p) (projects s)
        = map (\<lambda>p. if project_id p = i then ?p else p) (projects s)"
      using found by (rule map_update_one)
    have id': "project_id ((\<lambda>_. ?p) p0) = i"
      using filter_singleton_holds [OF found] by (simp add: written_fields)
    have kept: "filter (\<lambda>p. project_id p = i)
        (map (\<lambda>p. if project_id p = i then ?p else p) (projects s)) = [?p]"
      using filter_map_update [of i "projects s" p0 "\<lambda>_. ?p"] found id' by simp
    show ?thesis
      using run kept unfolding one
      by (intro exI [of _ ?p]) (simp add: written_fields)
  qed
  have h: "\<exists>s'. deleteProjectHandler s i
           = (Json 200 True ''Project deleted successfully'' None, s')
           \<and> filter (\<lambda>p. project_id p = i) (projects s') = [p0\<lparr>status := CANCELLED\<rparr>]"
    if found: "filter (\<lambda>p. project_id p = i) (projects s) = [p0]" and "uuidRegex_test i"
      "status p0 = PENDING" for p0
  proof -
    have id': "project_id (p0\<lparr>status := CANCELLED\<rparr>) = i"
      using filter_singleton_holds [OF found] by simp
    have kept: "filter (\<lambda>p. project_id p = i)
        (map (\<lambda>p. if project_id p = i then p\<lparr>status := CANCELLED\<rparr> else p) (projects s))
        = [p0\<lparr>status := CANCELLED\<rparr>]"
      using filter_map_update [of i "projects s" p0 "\<lambda>p. p\<lparr>status := CANCELLED\<rparr>"] found id'
      by simp
    show ?thesis
      using that(2,3) kept
      by (simp add: deleteProjectHandler_def deleteProject_found [OF found] not_owner_None)
  qed
  from a b c d e f g h show ?thesis by blast
qed

lemma uuid_id1: "uuidRegex_test id1"
  by (simp add: uuidRegex_test_def uuid_classes_def hex_def id1_def)

lemma shop_after_update:
  "map (\<lambda>p. if project_id p = id1 then q else p) (projects shop) = [q, p2, p3, p4, p5]"
  by (simp add: shop_def p1_def p2_def p3_def p4_def p5_def row_def id1_def id2_def id3_def
      id4_def id5_def)

theorem handlers_never_check_ownership_witness:
  "filter (\<lambda>p. project_id p = id1) (projects shop) = [p1] \<and> uuidRegex_test id1
   \<and> \<not> negative_budget (set_status IN_PROGRESS) \<and> \<not> invalid_status_field (set_status IN_PROGRESS)
   \<and> check_transition PROJECT_STATUS_TRANSITIONS (status p1) (u_status (set_status IN_PROGRESS)) = None
   \<and> status p1 = PENDING
   \<and> client_id p1 = alice_id
   \<and> updateProjectHandler shop id1 (set_status IN_PROGRESS)
       = (Json 200 True ''Project updated successfully'' (Some (p1\<lparr>status := IN_PROGRESS\<rparr>)),
          shop\<lparr>projects := [p1\<lparr>status := IN_PROGRESS\<rparr>, p2, p3, p4, p5]\<rparr>)
   \<and> (\<exists>s'. deleteProjectHandler shop id1
         = (Json 200 True ''Project deleted successfully'' None, s')
         \<and> filter (\<lambda>p. project_id p = id1) (projects s') = [p1\<lparr>status := CANCELLED\<rparr>])
   \<and> snd (updateProjectHandler shop id1 (set_status IN_PROGRESS))
       = snd (updateProject shop id1 (set_status IN_PROGRESS) None)
   \<and> snd (deleteProjectHandler shop id1) = snd (deleteProject shop id1 None)"
proof -
  have h1: "filter (\<lambda>p. project_id p = id1) (projects shop) = [p1]" by (rule shop_find1)
  have h2: "uuidRegex_test id1" by (rule uuid_id1)
  have h3: "\<not> negative_budget (set_status IN_PROGRESS)"
    by (simp add: negative_budget_def set_status_def)
  have h4: "\<not> invalid_status_field (set_status IN_PROGRESS)"
    by (simp add: invalid_status_field_def set_status_def ProjectStatus_values_def)
  have st: "status p1 = PENDING" by (simp add: p1_def row_def)
  have h5: "check_transition PROJECT_STATUS_TRANSITIONS (status p1)
      (u_status (set_status IN_PROGRESS)) = None"
    by (simp add: check_transition_def st set_status_def get_property_own transitions_table)
  have own: "client_id p1 = alice_id" by (simp add: p1_def row_def)
  note inst = handlers_never_check_ownership [of shop id1 "set_status IN_PROGRESS"]
  from inst h1 h2 h3 h4 h5 obtain p' where
    run: "updateProjectHandler shop id1 (set_status IN_PROGRESS)
             = (Json 200 True ''Project updated successfully'' (Some p'),
                shop\<lparr>projects := map (\<lambda>p. if project_id p = id1 then p' else p) (projects shop)\<rparr>)"
    and fields: "project_id p' = project_id p1" "client_id p' = client_id p1"
      "created_at p' = created_at p1"
      "title p' = (case u_title (set_status IN_PROGRESS) of None \<Rightarrow> title p1 | Some x \<Rightarrow> trim x)"
      "description p' = (case u_description (set_status IN_PROGRESS) of
                           None \<Rightarrow> description p1 | Some x \<Rightarrow> trim x)"
      "category p' = (case u_category (set_status IN_PROGRESS) of
                           None \<Rightarrow> category p1 | Some x \<Rightarrow> trim x)"
      "budget p' = (case u_budget (set_status IN_PROGRESS) of None \<Rightarrow> budget p1 | Some b \<Rightarrow> b)"
      "status p' = (case u_status (set_status IN_PROGRESS) of None \<Rightarrow> status p1 | Some st \<Rightarrow> st)"
    by blast
  have p': "p' = p1\<lparr>status := IN_PROGRESS\<rparr>"
    using fields by (intro project.equality) (simp_all add: set_status_def)
  have r1: "updateProjectHandler shop id1 (set_status IN_PROGRESS)
       = (Json 200 True ''Project updated successfully'' (Some (p1\<lparr>status := IN_PROGRESS\<rparr>)),
          shop\<lparr>projects := [p1\<lparr>status := IN_PROGRESS\<rparr>, p2, p3, p4, p5]\<rparr>)"
    using run unfolding p' shop_after_update .
  have r2: "\<exists>s'. deleteProjectHandler shop id1
         = (Json 200 True ''Project deleted successfully'' None, s')
         \<and> filter (\<lambda>p. project_id p = id1) (projects s') = [p1\<lparr>status := CANCELLED\<rparr>]"
    using inst h1 h2 st by blast
  have r3: "snd (updateProjectHandler shop id1 (set_status IN_PROGRESS))
       = snd (updateProject shop id1 (set_status IN_PROGRESS) None)"
    using inst h2 h3 h4 by blast
  have r4: "snd (deleteProjectHandler shop id1) = snd (deleteProject shop id1 None)"
    using inst h2 by blast
  from h1 h2 h3 h4 h5 st own r1 r2 r3 r4 show ?thesis by blast
qed

section \<open>createProject\<close>

lemma trim_decomp:
  "\<exists>a b. s = a @ trim s @ b \<and> list_all is_ws a \<and> list_all is_ws b"
proof -
  let ?m = "dropWhile is_ws s"
  let ?a = "takeWhile is_ws s"
  let ?b = "rev (takeWhile is_ws (rev ?m))"
  have "trim s @ ?b = rev (takeWhile is_ws (rev ?m) @ dropWhile is_ws (rev ?m))"
    unfolding trim_def rev_append ..
  also have "\<dots> = ?m" by simp
  finally have m: "?m = trim s @ ?b" by simp
  have "s = ?a @ ?m" by simp
  with m have s: "s = ?a @ trim s @ ?b" by simp
  have a: "list_all is_ws ?a"
    by (simp add: list_all_iff) (meson set_takeWhileD)
  have b: "list_all is_ws ?b"
    by (simp add: list_all_iff) (meson set_takeWhileD)
  from s a b show ?thesis by blast
qed

lemma trim_no_outer_ws: "no_outer_ws (trim s)"
proof (cases "trim s")
  case Nil
  then show ?thesis by (simp add: no_outer_ws_def)
next
  case (Cons c cs)
  let ?m = "dropWhile is_ws s"
  let ?r = "dropWhile is_ws (rev ?m)"
  have t: "trim s = rev ?r" by (simp add: trim_def)
  with Cons have r: "?r \<noteq> []" by auto
  then have "\<not> is_ws (hd ?r)" by (rule hd_dropWhile)
  with r t have last: "\<not> is_ws (last (trim s))" by (simp add: last_rev)
  obtain b where m: "?m = trim s @ b"
    using t by (metis rev_append rev_rev_ident takeWhile_dropWhile_id)
  with Cons have "?m \<noteq> []" by simp
  then have "\<not> is_ws (hd ?m)" by (rule hd_dropWhile)
  with m Cons have "\<not> is_ws c" by simp
  with last Cons show ?thesis by (simp add: no_outer_ws_def)
qed

text \<open>
  C4. When no user has the client id, \<open>createProject\<close> fails with "User not found"
  (NotFound: the create handler answers 404) and leaves the store alone. When the user
  is flagged as a freelancer it fails with "Only clients can create projects"
  (Forbidden: the handler answers 403) and leaves the store alone. Otherwise the store
  gains exactly one row, the one returned: its status is pending, and its title,
  description and category are those of the request trimmed, with no white space left
  at either end.
\<close>

theorem createProject_outcomes:
  "(users s (c_client_id d) = None \<longrightarrow> createProject s new_id now d = (Inl UserNotFound, s))
   \<and> (\<forall>usr. users s (c_client_id d) = Some usr \<and> is_freelancer usr \<longrightarrow>
         createProject s new_id now d = (Inl OnlyClients, s))
   \<and> (\<forall>usr. users s (c_client_id d) = Some usr \<and> \<not> is_freelancer usr \<longrightarrow>
         (\<exists>p. createProject s new_id now d = (Inr p, s\<lparr>projects := projects s @ [p]\<rparr>)
            \<and> status p = PENDING
            \<and> title p = trim (c_title d) \<and> no_outer_ws (title p)
            \<and> description p = trim (c_description d) \<and> no_outer_ws (description p)
            \<and> category p = trim (c_category d) \<and> no_outer_ws (category p)
            \<and> client_id p = c_client_id d \<and> budget p = c_budget d))
   \<and> (\<forall>body. \<not> missing_project_fields body \<and> 0 \<le> the (b_budget body) \<and> dto_of body = d \<longrightarrow>
         (users s (c_client_id d) = None \<longrightarrow>
            createProjectHandler s new_id now body = (Json 404 False ''User not found'' None, s))
         \<and> (\<forall>usr. users s (c_client_id d) = Some usr \<and> is_freelancer usr \<longrightarrow>
            createProjectHandler s new_id now body
              = (Json 403 False ''Only clients can create projects'' None, s)))"
proof -
  have a: "users s (c_client_id d) = None \<longrightarrow> createProject s new_id now d = (Inl UserNotFound, s)"
    by (simp add: createProject_def user_single_def)
  have b: "\<forall>usr. users s (c_client_id d) = Some usr \<and> is_freelancer usr \<longrightarrow>
         createProject s new_id now d = (Inl OnlyClients, s)"
    by (simp add: createProject_def user_single_def)
  have c: "\<forall>usr. users s (c_client_id d) = Some usr \<and> \<not> is_freelancer usr \<longrightarrow>
         (\<exists>p. createProject s new_id now d = (Inr p, s\<lparr>projects := projects s @ [p]\<rparr>)
            \<and> status p = PENDING
            \<and> title p = trim (c_title d) \<and> no_outer_ws (title p)
            \<and> description p = trim (c_description d) \<and> no_outer_ws (description p)
            \<and> category p = trim (c_category d) \<and> no_outer_ws (category p)
            \<and> client_id p = c_client_id d \<and> budget p = c_budget d)"
    by (simp add: createProject_def user_single_def run_insert_def trim_no_outer_ws)
  have h: "\<forall>body. \<not> missing_project_fields body \<and> 0 \<le> the (b_budget body) \<and> dto_of body = d \<longrightarrow>
         (users s (c_client_id d) = None \<longrightarrow>
            createProjectHandler s new_id now body = (Json 404 False ''User not found'' None, s))
         \<and> (\<forall>usr. users s (c_client_id d) = Some usr \<and> is_freelancer usr \<longrightarrow>
            createProjectHandler s new_id now body
              = (Json 403 False ''Only clients can create projects'' None, s))"
    using a b by (auto simp: createProjectHandler_def UserNotFound_def OnlyClients_def)
  from a b c h show ?thesis by blast
qed

lemma shop_users:
  "users shop alice_id = Some alice" "users shop bob_id = Some bob" "users shop carol_id = None"
  by (simp_all add: shop_def alice_id_def bob_id_def carol_id_def)

lemma trim_logo: "trim ''  Logo '' = ''Logo''" "trim '' Design'' = ''Design''"
  by (simp_all add: trim_def is_ws_def)

theorem createProject_outcomes_witness:
  "users shop (c_client_id (dto_of (logo_job\<lparr>b_client_id := Some carol_id\<rparr>))) = None
   \<and> createProject shop id6 50 (dto_of (logo_job\<lparr>b_client_id := Some carol_id\<rparr>))
        = (Inl UserNotFound, shop)
   \<and> users shop (c_client_id (dto_of (logo_job\<lparr>b_client_id := Some bob_id\<rparr>))) = Some bob
   \<and> is_freelancer bob
   \<and> createProject shop id6 50 (dto_of (logo_job\<lparr>b_client_id := Some bob_id\<rparr>))
        = (Inl OnlyClients, shop)
   \<and> createProjectHandler shop id6 50 (logo_job\<lparr>b_client_id := Some bob_id\<rparr>)
        = (Json 403 False ''Only clients can create projects'' None, shop)
   \<and> users shop (c_client_id (dto_of logo_job)) = Some alice
   \<and> \<not> is_freelancer alice
   \<and> (\<exists>p. createProject shop id6 50 (dto_of logo_job)
              = (Inr p, shop\<lparr>projects := projects shop @ [p]\<rparr>)
          \<and> status p = PENDING \<and> title p = ''Logo'' \<and> category p = ''Design'')"
proof -
  let ?carol = "logo_job\<lparr>b_client_id := Some carol_id\<rparr>"
  let ?bob = "logo_job\<lparr>b_client_id := Some bob_id\<rparr>"
  have a1: "users shop (c_client_id (dto_of ?carol)) = None"
    by (simp add: dto_of_def logo_job_def shop_users)
  have b1: "users shop (c_client_id (dto_of ?bob)) = Some bob"
    by (simp add: dto_of_def logo_job_def shop_users)
  have b2: "is_freelancer bob" by (simp add: bob_def)
  have b3: "\<not> missing_project_fields ?bob"
    by (simp add: missing_project_fields_def logo_job_def bob_id_def)
  have b4: "0 \<le> the (b_budget ?bob)" by (simp add: logo_job_def)
  have c1: "users shop (c_client_id (dto_of logo_job)) = Some alice"
    by (simp add: dto_of_def logo_job_def shop_users)
  have c2: "\<not> is_freelancer alice" by (simp add: alice_def)
  have c3: "c_title (dto_of logo_job) = ''  Logo ''" "c_category (dto_of logo_job) = '' Design''"
    by (simp_all add: dto_of_def logo_job_def)
  have r1: "createProject shop id6 50 (dto_of ?carol) = (Inl UserNotFound, shop)"
    using createProject_outcomes [of shop "dto_of ?carol" id6 50] a1 by blast
  have r2: "createProject shop id6 50 (dto_of ?bob) = (Inl OnlyClients, shop)"
    using createProject_outcomes [of shop "dto_of ?bob" id6 50] b1 b2 by blast
  have r3: "createProjectHandler shop id6 50 ?bob
        = (Json 403 False ''Only clients can create projects'' None, shop)"
    using createProject_outcomes [of shop "dto_of ?bob" id6 50] b1 b2 b3 b4 by blast
  have "\<exists>p. createProject shop id6 50 (dto_of logo_job)
              = (Inr p, shop\<lparr>projects := projects shop @ [p]\<rparr>)
          \<and> status p = PENDING \<and> title p = trim (c_title (dto_of logo_job))
          \<and> category p = trim (c_category (dto_of logo_job))"
    using createProject_outcomes [of shop "dto_of logo_job" id6 50] c1 c2 by blast
  then have r4: "\<exists>p. createProject shop id6 50 (dto_of logo_job)
              = (Inr p, shop\<lparr>projects := projects shop @ [p]\<rparr>)
          \<and> status p = PENDING \<and> title p = ''Logo'' \<and> category p = ''Design''"
    unfolding c3 trim_logo .
  from a1 b1 b2 c1 c2 r1 r2 r3 r4 show ?thesis by blast
qed

section \<open>getProjectCategories\<close>

lemma fold_insert_set:
  "set (fold (\<lambda>x acc. if x \<in> set acc then acc else acc @ [x]) xs acc) = set acc \<union> set xs"
  by (induction xs arbitrary: acc) auto

lemma fold_insert_distinct:
  "distinct acc \<Longrightarrow> distinct (fold (\<lambda>x acc. if x \<in> set acc then acc else acc @ [x]) xs acc)"
  by (induction xs arbitrary: acc) auto

lemma set_Set_of: "set (Set_of xs) = set xs"
  by (simp add: Set_of_def fold_insert_set)

lemma distinct_Set_of: "distinct (Set_of xs)"
  by (simp add: Set_of_def fold_insert_distinct)

lemma select_not_cancelled:
  "run_select s (add_cond (NeqStatus CANCELLED) (from_projects False))
     = Inr (filter (\<lambda>p. status p \<noteq> CANCELLED) (projects s),
            length (filter (\<lambda>p. status p \<noteq> CANCELLED) (projects s)))"
  by (simp add: run_select_def add_cond_def from_projects_def matching_def ordered_def
      in_range_def)

text \<open>
  C8. For every store \<open>getProjectCategories\<close> returns a list whose members are exactly
  the categories of the projects whose status is not cancelled, each once, in
  ascending order.
\<close>

theorem getProjectCategories_sorted_distinct:
  "\<exists>cs. getProjectCategories s = Inr cs
     \<and> set cs = category ` {p \<in> set (projects s). status p \<noteq> CANCELLED}
     \<and> distinct cs \<and> sorted cs"
proof -
  let ?cs = "sort (Set_of (map category (filter (\<lambda>p. status p \<noteq> CANCELLED) (projects s))))"
  have run: "getProjectCategories s = Inr ?cs"
    by (simp add: getProjectCategories_def select_not_cancelled)
  have members: "set ?cs = category ` {p \<in> set (projects s). status p \<noteq> CANCELLED}"
    by (simp add: set_Set_of)
  have "distinct ?cs" by (simp add: distinct_Set_of)
  moreover have "sorted ?cs" by simp
  ultimately show ?thesis using run members by blast
qed

lemma getProjectCategories_shop:
  "getProjectCategories shop = Inr [''Data'', ''Web Design'', ''Writing'', ''design'']"
  by code_simp

section \<open>The escrow status a request may set\<close>

text \<open>
  C6. For a request whose contract id passes the UUID test, the status handler answers
  400, without calling the service and leaving the store alone, when the escrow status
  is missing or empty or is not one of funded, released and disputed; pending is
  among the values it refuses.
\<close>

theorem updateContractStatusHandler_rejects_status:
  assumes "UUID_REGEX_test i"
    and "\<not> truthy (e_escrow_status d)
         \<or> the (e_escrow_status d) \<notin> {''funded'', ''released'', ''disputed''}"
  shows "\<exists>m. updateContractStatusHandler UUID_REGEX_test updateContractStatus s i d
            = (Json 400 False m None, s)"
  using assms
  by (auto simp: updateContractStatusHandler_def HTTP_STATUS_BAD_REQUEST_def
      ACTIVE_ESCROW_STATUSES_def)

theorem updateContractStatusHandler_rejects_status_witness:
  "uuidRegex_test id1
   \<and> the (e_escrow_status to_pending) = ''pending''
   \<and> the (e_escrow_status to_pending) \<notin> {''funded'', ''released'', ''disputed''}
   \<and> (\<exists>m. updateContractStatusHandler uuidRegex_test no_contract shop id1 to_pending
            = (Json 400 False m None, shop))"
proof -
  have h1: "uuidRegex_test id1" by (rule uuid_id1)
  have h2: "the (e_escrow_status to_pending) = ''pending''" by (simp add: to_pending_def)
  have h3: "the (e_escrow_status to_pending) \<notin> {''funded'', ''released'', ''disputed''}"
    by (simp add: to_pending_def)
  from updateContractStatusHandler_rejects_status [of uuidRegex_test id1 to_pending no_contract shop]
    h1 h3
  have "\<exists>m. updateContractStatusHandler uuidRegex_test no_contract shop id1 to_pending
            = (Json 400 False m None, shop)"
    by blast
  with h1 h2 h3 show ?thesis by blast
qed

section \<open>A contract between users the store does not know\<close>

lemma createContractHandler_not_found_code:
  assumes "\<not> missing_required d" "the (d_contract_type d) \<in> set CONTRACT_TYPES"
    "0 < the (d_amount_locked d)" "trim (the (d_contract_on_chain_id d)) \<noteq> []"
    and "svc s d = (Inl (Error ''Freelancer or client not found''), s')"
  shows "createContractHandler svc s d
           = (Json HTTP_STATUS_BAD_REQUEST False ''Freelancer or client not found'' None, s')"
  using assms by (simp add: createContractHandler_def)

text \<open>
  C3. A contract request that passes the handler's own checks and names a freelancer
  the store does not know: the service fails with "Freelancer or client not found",
  and the handler answers that message with \<^verbatim>\<open>HTTP_STATUS.BAD_REQUEST\<close>, 400, where its
  own documentation promises 404.
\<close>

theorem createContractHandler_missing_user_answers_400:
  "users shop (the (d_freelancer_id gig)) = None
   \<and> createContract id6 50 shop gig = (Inl (Error ''Freelancer or client not found''), shop)
   \<and> createContractHandler (createContract id6 50) shop gig
       = (Json 400 False ''Freelancer or client not found'' None, shop)"
proof -
  have shape: "\<not> missing_required gig" "the (d_contract_type gig) \<in> set CONTRACT_TYPES"
    "0 < the (d_amount_locked gig)"
    by (simp_all add: missing_required_def gig_def CONTRACT_TYPES_def carol_id_def alice_id_def)
  have chain: "trim (the (d_contract_on_chain_id gig)) \<noteq> []"
    by (simp add: gig_def trim_def is_ws_def)
  have absent: "users shop (the (d_freelancer_id gig)) = None"
    by (simp add: gig_def shop_users)
  have differ: "d_freelancer_id gig \<noteq> d_client_id gig"
    by (simp add: gig_def carol_id_def alice_id_def)
  have svc: "createContract id6 50 shop gig = (Inl (Error ''Freelancer or client not found''), shop)"
    using shape chain absent differ by (simp add: createContract_def)
  have "createContractHandler (createContract id6 50) shop gig
       = (Json HTTP_STATUS_BAD_REQUEST False ''Freelancer or client not found'' None, shop)"
    using shape chain svc by (rule createContractHandler_not_found_code)
  with absent svc show ?thesis by (simp add: HTTP_STATUS_BAD_REQUEST_def)
qed

section \<open>getAllProjects\<close>

text \<open>What \<open>includes_str\<close> computes is containment as a contiguous sublist.\<close>

lemma startsWith_prefix: "startsWith s t = prefix t s"
  by (induction s t rule: startsWith.induct) auto

lemma includes_str_sublist: "includes_str s t = sublist t s"
  by (induction s) (simp_all add: startsWith_prefix sublist_Cons_right)

lemma like_percent_only: "like_match lc ''%'' s"
  by (induction s) simp_all

lemma like_percent: "like_match lc (CHR ''%'' # ps) s = (\<exists>k. like_match lc ps (drop k s))"
proof (induction s)
  case Nil
  then show ?case by (cases ps) auto
next
  case (Cons c cs)
  have "(\<exists>k. like_match lc ps (drop k (c # cs)))
      = (like_match lc ps (c # cs) \<or> (\<exists>k. like_match lc ps (drop k cs)))"
  proof
    assume "\<exists>k. like_match lc ps (drop k (c # cs))"
    then obtain k where k: "like_match lc ps (drop k (c # cs))" ..
    show "like_match lc ps (c # cs) \<or> (\<exists>k. like_match lc ps (drop k cs))"
    proof (cases k)
      case 0
      with k show ?thesis by simp
    next
      case (Suc j)
      with k have "like_match lc ps (drop j cs)" by simp
      then show ?thesis by blast
    qed
  next
    assume "like_match lc ps (c # cs) \<or> (\<exists>k. like_match lc ps (drop k cs))"
    then show "\<exists>k. like_match lc ps (drop k (c # cs))"
    proof
      assume "like_match lc ps (c # cs)"
      then have "like_match lc ps (drop 0 (c # cs))" by simp
      then show ?thesis by blast
    next
      assume "\<exists>k. like_match lc ps (drop k cs)"
      then obtain k where "like_match lc ps (drop k cs)" ..
      then have "like_match lc ps (drop (Suc k) (c # cs))" by simp
      then show ?thesis by blast
    qed
  qed
  with Cons show ?case by simp
qed

lemma like_plain:
  assumes "pattern_free c"
  shows "like_match lc (c @ rest) s
       = (\<exists>s1 s2. s = s1 @ s2 \<and> map lc s1 = map lc c \<and> like_match lc rest s2)"
  using assms
proof (induction c arbitrary: s)
  case Nil
  then show ?case by simp
next
  case (Cons p ps)
  then have plain: "p \<noteq> CHR ''%''" "p \<noteq> CHR ''_''" "p \<noteq> CHR 0x5C" and rest: "pattern_free ps"
    by (simp_all add: pattern_free_def)
  show ?case
  proof (cases s)
    case Nil
    with plain show ?thesis by simp
  next
    case (Cons d ds)
    have "like_match lc ((p # ps) @ rest) (d # ds)
        = (lc d = lc p \<and> like_match lc (ps @ rest) ds)"
      using plain by simp
    also have "\<dots> = (lc d = lc p
        \<and> (\<exists>s1 s2. ds = s1 @ s2 \<and> map lc s1 = map lc ps \<and> like_match lc rest s2))"
      using Cons.IH [OF rest] by simp
    also have "\<dots> = (\<exists>s1 s2. d # ds = s1 @ s2 \<and> map lc s1 = map lc (p # ps)
        \<and> like_match lc rest s2)"
    proof
      assume "lc d = lc p
        \<and> (\<exists>s1 s2. ds = s1 @ s2 \<and> map lc s1 = map lc ps \<and> like_match lc rest s2)"
      then obtain s1 s2 where "lc d = lc p" "ds = s1 @ s2"
        "map lc s1 = map lc ps" "like_match lc rest s2" by blast
      then have "d # ds = (d # s1) @ s2 \<and> map lc (d # s1) = map lc (p # ps)
        \<and> like_match lc rest s2" by simp
      then show "\<exists>s1 s2. d # ds = s1 @ s2 \<and> map lc s1 = map lc (p # ps)
        \<and> like_match lc rest s2" by blast
    next
      assume "\<exists>s1 s2. d # ds = s1 @ s2 \<and> map lc s1 = map lc (p # ps)
        \<and> like_match lc rest s2"
      then obtain s1 s2 where a: "d # ds = s1 @ s2" "map lc s1 = map lc (p # ps)"
        "like_match lc rest s2" by blast
      from a(2) obtain e es where s1: "s1 = e # es" by (cases s1) auto
      with a have "lc d = lc p" "ds = es @ s2" "map lc es = map lc ps" by simp_all
      with a(3) show "lc d = lc p
        \<and> (\<exists>s1 s2. ds = s1 @ s2 \<and> map lc s1 = map lc ps \<and> like_match lc rest s2)"
        by blast
    qed
    finally show ?thesis using Cons by simp
  qed
qed

lemma star_free: "pattern_free c \<Longrightarrow> map (\<lambda>ch. if ch = CHR ''*'' then CHR ''%'' else ch) c = c"
  by (induction c) (simp_all add: pattern_free_def)

lemma ilike_substring:
  assumes "pattern_free c"
  shows "ilike lc (''%'' @ c @ ''%'') cat = contains_ci lc cat c"
proof -
  have "ilike lc (''%'' @ c @ ''%'') cat = like_match lc (CHR ''%'' # c @ ''%'') cat"
    by (simp add: ilike_def star_free [OF assms])
  also have "\<dots> = (\<exists>k. like_match lc (c @ ''%'') (drop k cat))"
    by (rule like_percent)
  also have "\<dots> = (\<exists>k s1 s2. drop k cat = s1 @ s2 \<and> map lc s1 = map lc c)"
    by (simp add: like_plain [OF assms] like_percent_only)
  also have "\<dots> = sublist (map lc c) (map lc cat)"
  proof
    assume "\<exists>k s1 s2. drop k cat = s1 @ s2 \<and> map lc s1 = map lc c"
    then obtain k s1 s2 where d: "drop k cat = s1 @ s2" and m: "map lc s1 = map lc c"
      by blast
    have "cat = take k cat @ s1 @ s2" using d by (metis append_take_drop_id)
    then have "map lc cat = map lc (take k cat) @ map lc c @ map lc s2"
      using m by (metis map_append)
    then show "sublist (map lc c) (map lc cat)"
      unfolding sublist_def by blast
  next
    assume "sublist (map lc c) (map lc cat)"
    then obtain ps ss where e: "map lc cat = ps @ map lc c @ ss"
      unfolding sublist_def by blast
    let ?k = "length ps"
    let ?s1 = "take (length c) (drop ?k cat)"
    let ?s2 = "drop (length c) (drop ?k cat)"
    have "map lc ?s1 = take (length c) (drop ?k (map lc cat))"
      by (simp add: take_map drop_map)
    also have "\<dots> = map lc c" by (simp add: e)
    finally have "map lc ?s1 = map lc c" .
    moreover have "drop ?k cat = ?s1 @ ?s2"
      by (simp only: append_take_drop_id)
    ultimately show "\<exists>k s1 s2. drop k cat = s1 @ s2 \<and> map lc s1 = map lc c"
      by blast
  qed
  finally show ?thesis by (simp add: contains_ci_def includes_str_sublist)
qed

lemma contains_ci_empty: "contains_ci lc cat []"
  by (simp add: contains_ci_def includes_str_sublist)

lemma getAllProjects_query:
  "getAllProjects s f =
     (case run_select s
        \<lparr>inner_users = True,
         conds = (case f_category f of None \<Rightarrow> []
                  | Some c \<Rightarrow> if c \<noteq> [] then [IlikeCategory (''%'' @ c @ ''%'')] else [])
               @ (case f_budget_min f of None \<Rightarrow> [] | Some b \<Rightarrow> [GteBudget b])
               @ (case f_budget_max f of None \<Rightarrow> [] | Some b \<Rightarrow> [LteBudget b])
               @ (case f_status f of None \<Rightarrow> []
                  | Some st \<Rightarrow> if st \<noteq> [] then [EqStatus st] else []),
         rng = Some ((page_of f - 1) * limit_of f,
                     (page_of f - 1) * limit_of f + limit_of f - 1),
         descending = True\<rparr> of
        Inl e \<Rightarrow> Inl (Error (''Failed to fetch projects: '' @ e))
      | Inr (rows, count) \<Rightarrow> Inr (map (with_client s) rows, count))"
  by (simp add: getAllProjects_def Let_def if_truthy_def if_defined_def add_cond_def
      from_projects_def range_q_def order_created_at_desc_def page_of_def limit_of_def
      split: option.splits)

lemma conds_selected:
  assumes cat: "case f_category f of None \<Rightarrow> True | Some c \<Rightarrow> pattern_free c"
    and st: "f_status f \<noteq> Some []"
  shows "list_all (\<lambda>c. holds lc c p)
       ((case f_category f of None \<Rightarrow> []
         | Some c \<Rightarrow> if c \<noteq> [] then [IlikeCategory (''%'' @ c @ ''%'')] else [])
        @ (case f_budget_min f of None \<Rightarrow> [] | Some b \<Rightarrow> [GteBudget b])
        @ (case f_budget_max f of None \<Rightarrow> [] | Some b \<Rightarrow> [LteBudget b])
        @ (case f_status f of None \<Rightarrow> []
           | Some st \<Rightarrow> if st \<noteq> [] then [EqStatus st] else []))
     = selected lc f p"
proof -
  have c: "list_all (\<lambda>c. holds lc c p)
       (case f_category f of None \<Rightarrow> []
         | Some c \<Rightarrow> if c \<noteq> [] then [IlikeCategory (''%'' @ c @ ''%'')] else [])
     = (case f_category f of None \<Rightarrow> True | Some c \<Rightarrow> contains_ci lc (category p) c)"
    using cat ilike_substring [of _ lc "category p"]
    by (auto simp: contains_ci_empty split: option.splits)
  have lo: "list_all (\<lambda>c. holds lc c p)
       (case f_budget_min f of None \<Rightarrow> [] | Some b \<Rightarrow> [GteBudget b])
     = (case f_budget_min f of None \<Rightarrow> True | Some b \<Rightarrow> b \<le> budget p)"
    by (simp split: option.splits)
  have hi: "list_all (\<lambda>c. holds lc c p)
       (case f_budget_max f of None \<Rightarrow> [] | Some b \<Rightarrow> [LteBudget b])
     = (case f_budget_max f of None \<Rightarrow> True | Some b \<Rightarrow> budget p \<le> b)"
    by (simp split: option.splits)
  have s: "list_all (\<lambda>c. holds lc c p)
       (case f_status f of None \<Rightarrow> []
           | Some st \<Rightarrow> if st \<noteq> [] then [EqStatus st] else [])
     = (case f_status f of None \<Rightarrow> True | Some st \<Rightarrow> status p = st)"
    using st by (auto split: option.splits)
  show ?thesis
    unfolding list_all_append c lo hi s by (simp add: selected_def)
qed

lemma owners_exist_join:
  "owners_exist s \<Longrightarrow> filter (\<lambda>p. users s (client_id p) \<noteq> None) (projects s) = projects s"
  by (simp add: owners_exist_def list_all_iff)

lemma newest_first_sorted:
  "sorted_wrt (\<lambda>a b. created_at b \<le> created_at a) (newest_first rows)"
proof -
  have "sorted (map (\<lambda>p. - created_at p) (newest_first rows))"
    by (simp add: newest_first_def)
  then show ?thesis
    by (simp add: sorted_map)
qed

text \<open>
  C7, as amended. Take a store in which every project's owner is a user, a page and a
  limit of at least 1 (1 and 10 when absent), a status filter that is absent or a
  non-empty string, and a category filter that is absent or holds none of the
  characters \<open>%\<close>, \<open>_\<close>, \<open>*\<close> and backslash, which the pattern match reads specially;
  and let the offset (page - 1) * limit not exceed the number of rows selected.
  Then \<open>getAllProjects\<close> returns the listing the specification describes: of the rows
  whose category contains the filter regardless of case, as the store folds case,
  whose budget lies within the inclusive bounds and whose status is the one asked for,
  ordered newest first, the slice of limit rows at offset (page - 1) * limit, each
  with its client, together with the number of rows selected. Page 2 with limit 10 is
  the rows 11 to 20.
\<close>

theorem getAllProjects_listing:
  assumes fk: "owners_exist s"
    and pg: "1 \<le> page_of f" and lim: "1 \<le> limit_of f"
    and within: "(page_of f - 1) * limit_of f
                   \<le> int (length (filter (selected (fold_case s) f) (projects s)))"
    and cat: "case f_category f of None \<Rightarrow> True | Some c \<Rightarrow> pattern_free c"
    and st: "f_status f \<noteq> Some []"
  shows "getAllProjects s f = Inr (map (with_client s) (fst (listing s f)), snd (listing s f))
     \<and> list_all (selected (fold_case s) f) (fst (listing s f))
     \<and> sorted_wrt (\<lambda>a b. created_at b \<le> created_at a) (fst (listing s f))
     \<and> (f_page f = None \<longrightarrow> page_of f = 1)
     \<and> (f_limit f = None \<longrightarrow> limit_of f = 10)
     \<and> (page_of f = 2 \<and> limit_of f = 10 \<longrightarrow>
          fst (listing s f)
            = take 10 (drop 10 (newest_first (filter (selected (fold_case s) f) (projects s)))))"
proof -
  let ?rows = "filter (selected (fold_case s) f) (projects s)"
  let ?off = "(page_of f - 1) * limit_of f"
  have off: "0 \<le> ?off" using pg lim by simp
  have len: "?off + limit_of f - 1 - ?off + 1 = limit_of f" by simp
  have hi: "\<not> (?off + limit_of f - 1 < ?off)" using lim by simp
  let ?Q = "\<lparr>inner_users = True,
         conds = (case f_category f of None \<Rightarrow> []
                  | Some c \<Rightarrow> if c \<noteq> [] then [IlikeCategory (''%'' @ c @ ''%'')] else [])
               @ (case f_budget_min f of None \<Rightarrow> [] | Some b \<Rightarrow> [GteBudget b])
               @ (case f_budget_max f of None \<Rightarrow> [] | Some b \<Rightarrow> [LteBudget b])
               @ (case f_status f of None \<Rightarrow> []
                  | Some st \<Rightarrow> if st \<noteq> [] then [EqStatus st] else []),
         rng = Some (?off, ?off + limit_of f - 1),
         descending = True\<rparr>"
  have m: "matching s ?Q = ?rows"
    by (simp only: matching_def query.select_convs if_True owners_exist_join [OF fk]
        conds_selected [OF cat st])
  have o: "ordered ?Q ?rows = newest_first ?rows"
    by (simp add: ordered_def newest_first_def)
  have r: "in_range ?Q (newest_first ?rows)
      = Inr (take (nat (limit_of f)) (drop (nat ?off) (newest_first ?rows)))"
    using off hi within by (simp add: in_range_def newest_first_def)
  have sel_run: "run_select s ?Q
      = Inr (take (nat (limit_of f)) (drop (nat ?off) (newest_first ?rows)), length ?rows)"
    unfolding run_select_def m o r by simp
  have run: "getAllProjects s f
      = Inr (map (with_client s) (fst (listing s f)), snd (listing s f))"
    unfolding getAllProjects_query sel_run by (simp add: listing_def)
  have sub: "set (fst (listing s f)) \<subseteq> set ?rows"
  proof -
    have "set (fst (listing s f)) \<subseteq> set (drop (nat ?off) (newest_first ?rows))"
      unfolding listing_def fst_conv by (rule set_take_subset)
    also have "\<dots> \<subseteq> set (newest_first ?rows)" by (rule set_drop_subset)
    also have "\<dots> = set ?rows" by (simp add: newest_first_def)
    finally show ?thesis .
  qed
  then have sel: "list_all (selected (fold_case s) f) (fst (listing s f))"
    by (auto simp: list_all_iff)
  have srt: "sorted_wrt (\<lambda>a b. created_at b \<le> created_at a) (fst (listing s f))"
    unfolding listing_def fst_conv
    by (intro sorted_wrt_take sorted_wrt_drop newest_first_sorted)
  have d1: "f_page f = None \<longrightarrow> page_of f = 1" by (simp add: page_of_def)
  have d2: "f_limit f = None \<longrightarrow> limit_of f = 10" by (simp add: limit_of_def)
  have ex: "page_of f = 2 \<and> limit_of f = 10 \<longrightarrow>
          fst (listing s f) = take 10 (drop 10 (newest_first ?rows))"
    by (simp add: listing_def)
  from run sel srt d1 d2 ex show ?thesis by blast
qed

lemma shop_owners: "owners_exist shop"
  by (simp add: owners_exist_def shop_def p1_def p2_def p3_def p4_def p5_def row_def
      alice_id_def bob_id_def)

lemma listing_design:
  "listing shop (filters (Some ''design'') (Some 100) (Some 500) (Some 2) (Some 2)) = ([p1], 3)"
  by code_simp

lemma design_within:
  "(page_of (filters (Some ''design'') (Some 100) (Some 500) (Some 2) (Some 2)) - 1)
     * limit_of (filters (Some ''design'') (Some 100) (Some 500) (Some 2) (Some 2))
   \<le> int (length (filter
         (selected (fold_case shop)
            (filters (Some ''design'') (Some 100) (Some 500) (Some 2) (Some 2)))
         (projects shop)))"
  by code_simp

theorem getAllProjects_listing_witness:
  "owners_exist shop
   \<and> 1 \<le> page_of (filters (Some ''design'') (Some 100) (Some 500) (Some 2) (Some 2))
   \<and> 1 \<le> limit_of (filters (Some ''design'') (Some 100) (Some 500) (Some 2) (Some 2))
   \<and> (page_of (filters (Some ''design'') (Some 100) (Some 500) (Some 2) (Some 2)) - 1)
        * limit_of (filters (Some ''design'') (Some 100) (Some 500) (Some 2) (Some 2))
      \<le> int (length (filter
            (selected (fold_case shop)
               (filters (Some ''design'') (Some 100) (Some 500) (Some 2) (Some 2)))
            (projects shop)))
   \<and> pattern_free ''design''
   \<and> f_status (filters (Some ''design'') (Some 100) (Some 500) (Some 2) (Some 2)) \<noteq> Some []
   \<and> getAllProjects shop (filters (Some ''design'') (Some 100) (Some 500) (Some 2) (Some 2))
       = Inr ([with_client shop p1], 3)"
proof -
  let ?f = "filters (Some ''design'') (Some 100) (Some 500) (Some 2) (Some 2)"
  have h1: "owners_exist shop" by (rule shop_owners)
  have h2: "1 \<le> page_of ?f" by (simp add: page_of_def filters_def)
  have h3: "1 \<le> limit_of ?f" by (simp add: limit_of_def filters_def)
  have h4: "pattern_free ''design''" by (simp add: pattern_free_def)
  have h4': "case f_category ?f of None \<Rightarrow> True | Some c \<Rightarrow> pattern_free c"
    using h4 by (simp add: filters_def)
  have h5: "f_status ?f \<noteq> Some []" by (simp add: filters_def)
  note h6 = design_within
  from getAllProjects_listing [OF h1 h2 h3 h6 h4' h5]
  have "getAllProjects shop ?f = Inr ([with_client shop p1], 3)"
    unfolding listing_design by simp
  with h1 h2 h3 h4 h5 h6 show ?thesis by blast
qed

text \<open>Two runs of the model beside the theorem: a page that starts beyond the rows
  selected is refused by the store, and the service fails; and in a store that folds
  the accented letters, the filter caf\<open>0xE9\<close> lists both the row CAF\<open>0xC9\<close> and the row
  caf\<open>0xE9\<close>.\<close>

lemma getAllProjects_past_the_end:
  "getAllProjects shop (filters None None None (Some 2) (Some 10))
     = Inl (Error ''Failed to fetch projects: Requested range not satisfiable'')"
  by code_simp

lemma getAllProjects_accented:
  "getAllProjects cafes
     (filters (Some [CHR ''c'', CHR ''a'', CHR ''f'', CHR 0xE9]) None None None None)
     = Inr (map (with_client cafes) (rev (projects cafes)), 2)"
  by code_simp

text \<open>
  The claim as stated fails for a category filter with a pattern character: the filter
  \<open>d_s\<close> lists the three projects whose category contains "des" followed by any
  character and "s", none of which contains \<open>d_s\<close>.
\<close>

theorem getAllProjects_wildcard_counterexample:
  "getAllProjects shop (filters (Some ''d_s'') None None None None)
     = Inr ([with_client shop p4, with_client shop p2, with_client shop p1], 3)
   \<and> category p4 = ''web design'' \<and> \<not> contains_ci (fold_case shop) (category p4) ''d_s''
   \<and> category p2 = ''design'' \<and> \<not> contains_ci (fold_case shop) (category p2) ''d_s''
   \<and> category p1 = ''Web Design'' \<and> \<not> contains_ci (fold_case shop) (category p1) ''d_s''
   \<and> listing shop (filters (Some ''d_s'') None None None None) = ([], 0)"
  by code_simp

end
